theory Spec2Isabelle
  imports Main "HOL-Library.Sublist" "HOL-Library.Char_ord" "HOL-Library.List_Lexorder"
begin

section \<open>Strings as the scripts use them\<close>

text \<open>
  Python \<open>str\<close> values are modelled as \<open>string\<close>. The helpers below are the
  library calls the two scripts make on strings: \<open>strip\<close>, \<open>startswith\<close>,
  \<open>split\<close> with an explicit separator, \<open>join\<close>, \<open>lower\<close>, the substring
  test \<open>in\<close> and \<open>str\<close> of a non-negative count.
\<close>

abbreviation NL :: char where
  "NL \<equiv> CHR 0x0A"

definition is_space :: "char \<Rightarrow> bool" where
  "is_space c = (c \<in> set [CHR 0x09, CHR 0x0A, CHR 0x0B, CHR 0x0C, CHR 0x0D,
                           CHR 0x1C, CHR 0x1D, CHR 0x1E, CHR 0x1F, CHR 0x20,
                           CHR 0x85, CHR 0xA0])"

definition strip :: "string \<Rightarrow> string" where
  "strip s = rev (dropWhile is_space (rev (dropWhile is_space s)))"

definition startswith :: "string \<Rightarrow> string \<Rightarrow> bool" where
  "startswith s p = prefix p s"

fun split :: "char \<Rightarrow> string \<Rightarrow> string list" where
  "split sep [] = [[]]"
| "split sep (c # cs) =
     (if c = sep then [] # split sep cs
      else (case split sep cs of
              [] \<Rightarrow> [[c]]
            | w # ws \<Rightarrow> (c # w) # ws))"

fun join :: "string \<Rightarrow> string list \<Rightarrow> string" where
  "join sep [] = []"
| "join sep [x] = x"
| "join sep (x # y # ys) = x @ sep @ join sep (y # ys)"

definition lower_chr :: "char \<Rightarrow> char" where
  "lower_chr c =
     (let n = (of_char c :: nat) in if 65 \<le> n \<and> n \<le> 90 then char_of (n + 32) else c)"

definition lower :: "string \<Rightarrow> string" where
  "lower s = map lower_chr s"

definition upper_chr :: "char \<Rightarrow> char" where
  "upper_chr c =
     (let n = (of_char c :: nat) in if 97 \<le> n \<and> n \<le> 122 then char_of (n - 32) else c)"

definition upper :: "string \<Rightarrow> string" where
  "upper s = map upper_chr s"

fun contains :: "string \<Rightarrow> string \<Rightarrow> bool" where
  "contains sub [] = (sub = [])"
| "contains sub (c # cs) = (prefix sub (c # cs) \<or> contains sub cs)"

definition digit :: "nat \<Rightarrow> char" where
  "digit d = char_of (48 + d)"

function str_nat :: "nat \<Rightarrow> string" where
  "str_nat n = (if n < 10 then [digit n] else str_nat (n div 10) @ [digit (n mod 10)])"
  by pat_completeness auto
termination
  by (relation "measure id") auto

declare str_nat.simps [simp del]


section \<open>Paths and the file tree\<close>

text \<open>
  A \<open>pathlib.Path\<close> is the list of its components. \<open>joinpath p s\<close> is
  \<open>p / s\<close> for a string \<open>s\<close>: an absolute right operand replaces the left one,
  empty components and single dots are dropped, and \<open>..\<close> is kept as it is.
  The tree on disk is an association list from paths to nodes, so that a directory
  can be listed; the empty path is the root and always a directory.
\<close>

type_synonym path = "string list"

datatype node = File string | Dir

type_synonym filesystem = "(path \<times> node) list"

definition components :: "string \<Rightarrow> path" where
  "components s = filter (\<lambda>c. c \<noteq> [] \<and> c \<noteq> ''.'') (split (CHR ''/'') s)"

definition joinpath :: "path \<Rightarrow> string \<Rightarrow> path" where
  "joinpath p s = (if startswith s ''/'' then components s else p @ components s)"

definition name :: "path \<Rightarrow> string" where
  "name p = (if p = [] then [] else last p)"

definition parent :: "path \<Rightarrow> path" where
  "parent p = butlast p"

definition path_str :: "path \<Rightarrow> string" where
  "path_str p = join ''/'' p"

definition node_at :: "filesystem \<Rightarrow> path \<Rightarrow> node option" where
  "node_at t p = (if p = [] then Some Dir else map_of t p)"

definition exists_fs :: "filesystem \<Rightarrow> path \<Rightarrow> bool" where
  "exists_fs t p = (node_at t p \<noteq> None)"

definition is_dir :: "filesystem \<Rightarrow> path \<Rightarrow> bool" where
  "is_dir t p = (node_at t p = Some Dir)"

fun put :: "path \<Rightarrow> node \<Rightarrow> filesystem \<Rightarrow> filesystem" where
  "put p n [] = [(p, n)]"
| "put p n ((q, m) # t) = (if q = p then (p, n) # t else (q, m) # put p n t)"

text \<open>\<open>fnmatch\<close> for the patterns the scripts use: literal characters and \<open>*\<close>.\<close>

fun fnmatch :: "string \<Rightarrow> string \<Rightarrow> bool" where
  "fnmatch [] s = (s = [])"
| "fnmatch (p # ps) [] = (p = CHR ''*'' \<and> fnmatch ps [])"
| "fnmatch (p # ps) (c # cs) =
     (if p = CHR ''*'' then fnmatch ps (c # cs) \<or> fnmatch (p # ps) cs
      else p = c \<and> fnmatch ps cs)"

definition glob :: "filesystem \<Rightarrow> path \<Rightarrow> string \<Rightarrow> path list" where
  "glob t d pat = [q. (q, n) \<leftarrow> t, q \<noteq> [] \<and> parent q = d \<and> fnmatch pat (name q)]"

section \<open>The environment, the state and the events of a run\<close>

text \<open>
  What the scripts do not decide is a parameter: \<open>exec\<close> is the external process
  started by \<open>subprocess.run\<close> (it may raise, and it may change the tree),
  \<open>fault\<close> gives the text of the exception that a file operation on a path raises
  (permission denied and the like), \<open>which\<close> is \<open>shutil.which\<close>, the two import
  fields give the text of an \<open>ImportError\<close>, and \<open>re_other\<close> is \<open>re.sub\<close> on
  the patterns that \<open>re_sub\<close> below does not compute itself.

  The state of a run is the tree and the list of events so far: every call of a logger
  method with its level, every \<open>subprocess.run\<close> with its command line, and every
  write to a file.
\<close>

datatype level = DEBUG | INFO | WARNING | ERROR

datatype event = Log level string | Exec "string list" | Write path string

datatype proc = Raised string | Completed int string string

datatype ioop = OpRead | OpWrite | OpRemove | OpMkdir

record env =
  exec :: "string list \<Rightarrow> path \<Rightarrow> filesystem \<Rightarrow> proc \<times> filesystem"
  fault :: "ioop \<Rightarrow> path \<Rightarrow> string option"
  which :: "string \<Rightarrow> bool"
  init_import_error :: "string option"
  subst_import_error :: "string option"
  re_other :: "string \<Rightarrow> string \<Rightarrow> string \<Rightarrow> string + string"

record state =
  fs :: filesystem
  trace :: "event list"

definition log :: "level \<Rightarrow> string \<Rightarrow> state \<Rightarrow> state" where
  "log l m s = s\<lparr>trace := trace s @ [Log l m]\<rparr>"

definition run :: "env \<Rightarrow> string list \<Rightarrow> path \<Rightarrow> state \<Rightarrow> proc \<times> state" where
  "run E cmd cwd s =
     (case exec E cmd cwd (fs s) of
        (r, t) \<Rightarrow> (r, s\<lparr>fs := t, trace := trace s @ [Exec cmd]\<rparr>))"

text \<open>File operations; \<open>Inl\<close> carries the text of the exception raised.\<close>

definition read_text :: "env \<Rightarrow> path \<Rightarrow> state \<Rightarrow> string + string" where
  "read_text E p s =
     (case fault E OpRead p of
        Some e \<Rightarrow> Inl e
      | None \<Rightarrow>
          (case node_at (fs s) p of
             Some (File c) \<Rightarrow> Inr c
           | Some Dir \<Rightarrow> Inl ''IsADirectoryError''
           | None \<Rightarrow> Inl ''FileNotFoundError''))"

definition write_text :: "env \<Rightarrow> path \<Rightarrow> string \<Rightarrow> state \<Rightarrow> string + state" where
  "write_text E p c s =
     (case fault E OpWrite p of
        Some e \<Rightarrow> Inl e
      | None \<Rightarrow>
          if is_dir (fs s) p then Inl ''IsADirectoryError''
          else if \<not> is_dir (fs s) (parent p) then Inl ''FileNotFoundError''
          else Inr (s\<lparr>fs := put p (File c) (fs s), trace := trace s @ [Write p c]\<rparr>))"

definition append_text :: "env \<Rightarrow> path \<Rightarrow> string \<Rightarrow> state \<Rightarrow> string + state" where
  "append_text E p c s =
     (case fault E OpWrite p of
        Some e \<Rightarrow> Inl e
      | None \<Rightarrow>
          (case node_at (fs s) p of
             Some Dir \<Rightarrow> Inl ''IsADirectoryError''
           | Some (File old) \<Rightarrow>
               Inr (s\<lparr>fs := put p (File (old @ c)) (fs s), trace := trace s @ [Write p c]\<rparr>)
           | None \<Rightarrow>
               if \<not> is_dir (fs s) (parent p) then Inl ''FileNotFoundError''
               else Inr (s\<lparr>fs := put p (File c) (fs s), trace := trace s @ [Write p c]\<rparr>)))"

text \<open>
  \<open>shutil.rmtree\<close> and \<open>Path.unlink\<close>. A removal that raises leaves the model's
  tree as it was.
\<close>

definition rmtree :: "env \<Rightarrow> path \<Rightarrow> state \<Rightarrow> string + state" where
  "rmtree E p s =
     (case fault E OpRemove p of
        Some e \<Rightarrow> Inl e
      | None \<Rightarrow> Inr (s\<lparr>fs := filter (\<lambda>(q, n). \<not> prefix p q) (fs s)\<rparr>))"

definition unlink :: "env \<Rightarrow> path \<Rightarrow> state \<Rightarrow> string + state" where
  "unlink E p s =
     (case fault E OpRemove p of
        Some e \<Rightarrow> Inl e
      | None \<Rightarrow> Inr (s\<lparr>fs := filter (\<lambda>(q, n). q \<noteq> p) (fs s)\<rparr>))"

text \<open>\<open>mkdir(parents=True, exist_ok=True)\<close>, given the ancestors still to visit.\<close>

fun mkdir_each :: "env \<Rightarrow> path list \<Rightarrow> state \<Rightarrow> string + state" where
  "mkdir_each E [] s = Inr s"
| "mkdir_each E (d # ds) s =
     (case node_at (fs s) d of
        Some Dir \<Rightarrow> mkdir_each E ds s
      | Some (File c) \<Rightarrow> Inl ''FileExistsError''
      | None \<Rightarrow>
          (case fault E OpMkdir d of
             Some e \<Rightarrow> Inl e
           | None \<Rightarrow> mkdir_each E ds (s\<lparr>fs := put d Dir (fs s)\<rparr>)))"

definition mkdir_parents :: "env \<Rightarrow> path \<Rightarrow> state \<Rightarrow> string + state" where
  "mkdir_parents E p s = mkdir_each E (map (\<lambda>k. take k p) [1 ..< Suc (length p)]) s"


section \<open>\<open>re.sub\<close>\<close>

text \<open>
  \<open>re.sub(pattern, replacement, content)\<close> is computed here for the patterns that are
  a sequence of literal characters, escaped non-alphanumeric characters and dots, with a
  replacement free of backslashes: the scan goes left to right, a match is replaced and
  skipped, and the empty pattern matches before every character and at the end. On any
  other pattern or replacement the result is the environment's \<open>re_other\<close>, which
  may also be the text of an \<open>re.error\<close>.
\<close>

datatype item = Lit char | AnyChar

abbreviation BACKSLASH :: char where
  "BACKSLASH \<equiv> CHR 0x5C"

definition is_special :: "char \<Rightarrow> bool" where
  "is_special c = (c \<in> set ''.^$*+?{}[]|()'' \<or> c = BACKSLASH)"

definition is_ascii_alnum :: "char \<Rightarrow> bool" where
  "is_ascii_alnum c =
     (let n = (of_char c :: nat)
      in (48 \<le> n \<and> n \<le> 57) \<or> (65 \<le> n \<and> n \<le> 90) \<or> (97 \<le> n \<and> n \<le> 122))"

fun parse_pattern :: "string \<Rightarrow> item list option" where
  "parse_pattern [] = Some []"
| "parse_pattern [c] =
     (if c = CHR ''.'' then Some [AnyChar]
      else if is_special c then None
      else Some [Lit c])"
| "parse_pattern (c # d # cs) =
     (if c = BACKSLASH then
        (if is_ascii_alnum d then None else map_option (Cons (Lit d)) (parse_pattern cs))
      else if c = CHR ''.'' then map_option (Cons AnyChar) (parse_pattern (d # cs))
      else if is_special c then None
      else map_option (Cons (Lit c)) (parse_pattern (d # cs)))"

fun item_match :: "item \<Rightarrow> char \<Rightarrow> bool" where
  "item_match (Lit c) d = (c = d)"
| "item_match AnyChar d = (d \<noteq> NL)"

fun match_here :: "item list \<Rightarrow> string \<Rightarrow> bool" where
  "match_here [] s = True"
| "match_here (i # is) [] = False"
| "match_here (i # is) (c # cs) = (item_match i c \<and> match_here is cs)"

fun sub_scan :: "item list \<Rightarrow> string \<Rightarrow> nat \<Rightarrow> string \<Rightarrow> string" where
  "sub_scan p r k [] = (if k = 0 \<and> p = [] then r else [])"
| "sub_scan p r (Suc k) (c # cs) = sub_scan p r k cs"
| "sub_scan p r 0 (c # cs) =
     (if match_here p (c # cs) then
        (if p = [] then r @ c # sub_scan p r 0 cs
         else r @ sub_scan p r (length p - 1) cs)
      else c # sub_scan p r 0 cs)"

definition re_sub :: "env \<Rightarrow> string \<Rightarrow> string \<Rightarrow> string \<Rightarrow> string + string" where
  "re_sub E pattern replacement content =
     (case (if BACKSLASH \<in> set replacement then None else parse_pattern pattern) of
        Some p \<Rightarrow> Inr (sub_scan p replacement 0 content)
      | None \<Rightarrow> re_other E pattern replacement content)"

section \<open>apply-ungoogled-patches.py\<close>

record target =
  chromium_dir :: path

record UngoogledPatcher = target +
  ungoogled_dir :: path

subsection \<open>Patch application\<close>

definition ungoogled_git_apply_cmd :: "path \<Rightarrow> string list" where
  "ungoogled_git_apply_cmd patch_path =
     [''git'', ''apply'', ''--ignore-whitespace'', ''--ignore-space-change'', path_str patch_path]"

definition ungoogled_patch_cmd :: "path \<Rightarrow> string list" where
  "ungoogled_patch_cmd patch_path =
     [''patch'', ''-p1'', ''-i'', path_str patch_path, ''--ignore-whitespace'']"

definition ungoogled_apply_patch_fallback ::
  "env \<Rightarrow> UngoogledPatcher \<Rightarrow> path \<Rightarrow> state \<Rightarrow> bool \<times> state" where
  "ungoogled_apply_patch_fallback E self patch_path s0 =
     (let s1 = log DEBUG (''Trying fallback patch method for: '' @ name patch_path) s0;
          cmd = ungoogled_patch_cmd patch_path
      in case run E cmd (chromium_dir self) s1 of
           (Raised e, s2) \<Rightarrow> (False, log ERROR (''Fallback patch exception: '' @ e) s2)
         | (Completed rc out err, s2) \<Rightarrow>
             if rc = 0
             then (True, log DEBUG (''Fallback patch successful: '' @ name patch_path) s2)
             else (False, log ERROR (''Fallback patch failed: '' @ name patch_path) s2))"

definition apply_single_patch ::
  "env \<Rightarrow> UngoogledPatcher \<Rightarrow> path \<Rightarrow> state \<Rightarrow> bool \<times> state" where
  "apply_single_patch E self patch_path s0 =
     (let s1 = log DEBUG (''Applying patch: '' @ name patch_path) s0;
          cmd = ungoogled_git_apply_cmd patch_path
      in case run E cmd (chromium_dir self) s1 of
           (Raised e, s2) \<Rightarrow>
             (False,
              log ERROR (''Exception applying patch '' @ name patch_path @ '': '' @ e) s2)
         | (Completed rc out err, s2) \<Rightarrow>
             if rc = 0
             then (True, log DEBUG (''Successfully applied: '' @ name patch_path) s2)
             else ungoogled_apply_patch_fallback E self patch_path
                    (log ERROR (''Error output: '' @ err)
                       (log ERROR (''Patch failed: '' @ name patch_path) s2)))"

text \<open>
  The loop of \<open>_apply_patch_series\<close> over the listed patch files. \<open>None\<close> is the
  early \<open>return False\<close>; \<open>Some n\<close> is \<open>success_count\<close> at the end of the loop.
\<close>

fun patch_loop ::
  "env \<Rightarrow> UngoogledPatcher \<Rightarrow> path \<Rightarrow> string list \<Rightarrow> nat \<Rightarrow> state \<Rightarrow> nat option \<times> state" where
  "patch_loop E self patches_dir [] success_count s = (Some success_count, s)"
| "patch_loop E self patches_dir (patch_file # rest) success_count s =
     (let patch_path = joinpath patches_dir patch_file
      in if \<not> exists_fs (fs s) patch_path
         then patch_loop E self patches_dir rest success_count
                (log WARNING (''Patch file not found: '' @ patch_file) s)
         else (case apply_single_patch E self patch_path s of
                 (True, s') \<Rightarrow> patch_loop E self patches_dir rest (success_count + 1) s'
               | (False, s') \<Rightarrow>
                   (None, log ERROR (''Failed to apply patch: '' @ patch_file) s')))"

definition list_lines :: "string \<Rightarrow> string list" where
  "list_lines content =
     [strip line. line \<leftarrow> split NL content, strip line \<noteq> [] \<and> \<not> startswith line ''#'']"

text \<open>
  The list \<open>patch_files\<close> of \<open>_apply_patch_series\<close>: the lines of the
  \<open>series\<close> file, or the sorted names of the patch files of the directory. Reading
  the \<open>series\<close> file is outside every \<open>try\<close>: an exception there leaves
  \<open>_apply_patch_series\<close> (\<open>Inl\<close>).
\<close>

definition series_patch_files :: "env \<Rightarrow> path \<Rightarrow> state \<Rightarrow> string + string list" where
  "series_patch_files E patches_dir s =
     (let series_file = joinpath patches_dir ''series''
      in if exists_fs (fs s) series_file
         then map_sum id list_lines (read_text E series_file s)
         else Inr (sort (map name (glob (fs s) patches_dir ''*.patch''))))"

definition apply_patch_series ::
  "env \<Rightarrow> UngoogledPatcher \<Rightarrow> path \<Rightarrow> string \<Rightarrow> state \<Rightarrow> (string + bool) \<times> state" where
  "apply_patch_series E self patches_dir series_name s0 =
     (case series_patch_files E patches_dir s0 of
        Inl e \<Rightarrow> (Inl e, s0)
      | Inr patch_files \<Rightarrow>
          (let total_patches = length patch_files;
                  s1 = log INFO (''Found '' @ str_nat total_patches @ '' patches in ''
                                 @ series_name @ '' series'') s0
              in case patch_loop E self patches_dir patch_files 0 s1 of
                   (None, s2) \<Rightarrow> (Inr False, s2)
                 | (Some success_count, s2) \<Rightarrow>
                     (Inr (success_count = total_patches),
                      log INFO (''Successfully applied '' @ str_nat success_count @ ''/''
                                @ str_nat total_patches @ '' patches from '' @ series_name) s2)))"

definition apply_core_patches ::
  "env \<Rightarrow> UngoogledPatcher \<Rightarrow> state \<Rightarrow> (string + bool) \<times> state" where
  "apply_core_patches E self s0 =
     (let s1 = log INFO ''Applying core privacy patches...'' s0;
          patches_dir = joinpath (joinpath (ungoogled_dir self) ''patches'') ''core''
      in if \<not> exists_fs (fs s1) patches_dir
         then (Inr False, log WARNING ''Core patches directory not found'' s1)
         else apply_patch_series E self patches_dir ''core'' s1)"

definition apply_extra_patches ::
  "env \<Rightarrow> UngoogledPatcher \<Rightarrow> state \<Rightarrow> (string + bool) \<times> state" where
  "apply_extra_patches E self s0 =
     (let s1 = log INFO ''Applying extra privacy patches...'' s0;
          patches_dir = joinpath (joinpath (ungoogled_dir self) ''patches'') ''extra''
      in if \<not> exists_fs (fs s1) patches_dir
         then (Inr False, log WARNING ''Extra patches directory not found'' s1)
         else apply_patch_series E self patches_dir ''extra'' s1)"

definition apply_inox_patches ::
  "env \<Rightarrow> UngoogledPatcher \<Rightarrow> state \<Rightarrow> (string + bool) \<times> state" where
  "apply_inox_patches E self s0 =
     (let s1 = log INFO ''Applying Inox security patches...'' s0;
          patches_dir = joinpath (joinpath (ungoogled_dir self) ''patches'') ''inox-patchset''
      in if \<not> exists_fs (fs s1) patches_dir
         then (Inr False, log WARNING ''Inox patchset directory not found'' s1)
         else apply_patch_series E self patches_dir ''inox-patchset'' s1)"


subsection \<open>Domain substitution\<close>

fun regex_loop :: "env \<Rightarrow> string list \<Rightarrow> string \<Rightarrow> string + string" where
  "regex_loop E [] content = Inr content"
| "regex_loop E (regex_line # rest) content =
     (if strip regex_line \<noteq> [] \<and> \<not> startswith regex_line ''#''
      then (case split (CHR ''@'') (strip regex_line) of
              [pattern, replacement] \<Rightarrow>
                (case re_sub E pattern replacement content of
                   Inl e \<Rightarrow> Inl e
                 | Inr content' \<Rightarrow> regex_loop E rest content')
            | _ \<Rightarrow> regex_loop E rest content)
      else regex_loop E rest content)"

definition could_not_process :: "path \<Rightarrow> string \<Rightarrow> state \<Rightarrow> bool \<times> state" where
  "could_not_process file_path e s =
     (False, log DEBUG (''Could not process file '' @ path_str file_path @ '': '' @ e) s)"

definition substitute_domains_in_file ::
  "env \<Rightarrow> path \<Rightarrow> string list \<Rightarrow> state \<Rightarrow> bool \<times> state" where
  "substitute_domains_in_file E file_path regex_defs s =
     (case read_text E file_path s of
        Inl e \<Rightarrow> could_not_process file_path e s
      | Inr original_content \<Rightarrow>
          (case regex_loop E regex_defs original_content of
             Inl e \<Rightarrow> could_not_process file_path e s
           | Inr content \<Rightarrow>
               if content \<noteq> original_content
               then (case write_text E file_path content s of
                       Inl e \<Rightarrow> could_not_process file_path e s
                     | Inr s' \<Rightarrow> (True, log DEBUG (''Updated: '' @ path_str file_path) s'))
               else (False, s)))"

fun substitution_loop ::
  "env \<Rightarrow> UngoogledPatcher \<Rightarrow> string list \<Rightarrow> string list \<Rightarrow> nat \<Rightarrow> state \<Rightarrow> nat \<times> state" where
  "substitution_loop E self regex_defs [] substituted_count s = (substituted_count, s)"
| "substitution_loop E self regex_defs (file_path # rest) substituted_count s =
     (if strip file_path \<noteq> [] \<and> \<not> startswith file_path ''#''
      then (let target_file = joinpath (chromium_dir self) (strip file_path)
            in if exists_fs (fs s) target_file
               then (case substitute_domains_in_file E target_file regex_defs s of
                       (True, s') \<Rightarrow>
                         substitution_loop E self regex_defs rest (substituted_count + 1) s'
                     | (False, s') \<Rightarrow>
                         substitution_loop E self regex_defs rest substituted_count s')
               else substitution_loop E self regex_defs rest substituted_count s)
      else substitution_loop E self regex_defs rest substituted_count s)"

definition substitution_failed :: "string \<Rightarrow> state \<Rightarrow> bool \<times> state" where
  "substitution_failed e s = (False, log ERROR (''Domain substitution failed: '' @ e) s)"

definition apply_domain_substitution ::
  "env \<Rightarrow> UngoogledPatcher \<Rightarrow> state \<Rightarrow> bool \<times> state" where
  "apply_domain_substitution E self s0 =
     (let s1 = log INFO ''Applying domain substitution...'' s0;
          domain_sub_list = joinpath (ungoogled_dir self) ''domain_substitution.list'';
          domain_regex_list = joinpath (ungoogled_dir self) ''domain_regex.list''
      in if \<not> exists_fs (fs s1) domain_sub_list
         then (False, log ERROR ''domain_substitution.list not found'' s1)
         else if \<not> exists_fs (fs s1) domain_regex_list
         then (False, log ERROR ''domain_regex.list not found'' s1)
         else (case subst_import_error E of
                 Some e \<Rightarrow> substitution_failed e s1
               | None \<Rightarrow>
                   (case read_text E domain_regex_list s1 of
                      Inl e \<Rightarrow> substitution_failed e s1
                    | Inr regex_text \<Rightarrow>
                        (case read_text E domain_sub_list s1 of
                           Inl e \<Rightarrow> substitution_failed e s1
                         | Inr sub_text \<Rightarrow>
                             (let regex_defs = split NL (strip regex_text);
                                  sub_files = split NL (strip sub_text)
                              in case substitution_loop E self regex_defs sub_files 0 s1 of
                                   (substituted_count, s2) \<Rightarrow>
                                     (True,
                                      log INFO (''Domain substitution applied to ''
                                                @ str_nat substituted_count @ '' files'') s2))))))"

subsection \<open>Pruning\<close>

text \<open>
  The loop of \<open>apply_pruning\<close>. It has no \<open>try\<close> of its own: an exception of a
  removal leaves the loop (\<open>Inl\<close>) and is caught by the \<open>except\<close> of
  \<open>apply_pruning\<close>.
\<close>

fun pruning_loop ::
  "env \<Rightarrow> UngoogledPatcher \<Rightarrow> string list \<Rightarrow> nat \<Rightarrow> state \<Rightarrow> (string + nat) \<times> state" where
  "pruning_loop E self [] pruned_count s = (Inr pruned_count, s)"
| "pruning_loop E self (prune_path # rest) pruned_count s =
     (let target_path = joinpath (chromium_dir self) prune_path
      in if exists_fs (fs s) target_path
         then (if is_dir (fs s) target_path
               then (case rmtree E target_path s of
                       Inl e \<Rightarrow> (Inl e, s)
                     | Inr s' \<Rightarrow>
                         pruning_loop E self rest (pruned_count + 1)
                           (log DEBUG (''Removed directory: '' @ prune_path) s'))
               else (case unlink E target_path s of
                       Inl e \<Rightarrow> (Inl e, s)
                     | Inr s' \<Rightarrow>
                         pruning_loop E self rest (pruned_count + 1)
                           (log DEBUG (''Removed file: '' @ prune_path) s')))
         else pruning_loop E self rest pruned_count
                (log DEBUG (''Prune target not found: '' @ prune_path) s))"

definition apply_pruning :: "env \<Rightarrow> UngoogledPatcher \<Rightarrow> state \<Rightarrow> bool \<times> state" where
  "apply_pruning E self s0 =
     (let s1 = log INFO ''Applying pruning list...'' s0;
          pruning_list = joinpath (ungoogled_dir self) ''pruning.list''
      in if \<not> exists_fs (fs s1) pruning_list
         then (False, log ERROR ''pruning.list not found'' s1)
         else (case read_text E pruning_list s1 of
                 Inl e \<Rightarrow> (False, log ERROR (''Pruning failed: '' @ e) s1)
               | Inr text \<Rightarrow>
                   (case pruning_loop E self (list_lines text) 0 s1 of
                      (Inl e, s2) \<Rightarrow> (False, log ERROR (''Pruning failed: '' @ e) s2)
                    | (Inr pruned_count, s2) \<Rightarrow>
                        (True, log INFO (''Pruned '' @ str_nat pruned_count @ '' items'') s2))))"

subsection \<open>Build flags\<close>

definition build_flags_failed :: "string \<Rightarrow> state \<Rightarrow> bool \<times> state" where
  "build_flags_failed e s = (False, log ERROR (''Failed to apply build flags: '' @ e) s)"

definition args_gn :: "'a target_scheme \<Rightarrow> path" where
  "args_gn self = joinpath (joinpath (joinpath (chromium_dir self) ''out'') ''Ultimate'') ''args.gn''"

definition apply_build_flags :: "env \<Rightarrow> UngoogledPatcher \<Rightarrow> state \<Rightarrow> bool \<times> state" where
  "apply_build_flags E self s0 =
     (let s1 = log INFO ''Applying ungoogled-chromium build flags...'' s0;
          flags_file = joinpath (ungoogled_dir self) ''flags.gn''
      in if \<not> exists_fs (fs s1) flags_file
         then (False, log ERROR ''flags.gn not found'' s1)
         else (case read_text E flags_file s1 of
                 Inl e \<Rightarrow> build_flags_failed e s1
               | Inr ungoogled_flags \<Rightarrow>
                   (let args_file = args_gn self
                    in case mkdir_parents E (parent args_file) s1 of
                         Inl e \<Rightarrow> build_flags_failed e s1
                       | Inr s2 \<Rightarrow>
                           (case (if exists_fs (fs s2) args_file
                                  then append_text E args_file
                                         ([NL, NL] @ ''# Ungoogled-Chromium specific flags''
                                          @ [NL] @ ungoogled_flags) s2
                                  else write_text E args_file
                                         (''# Ungoogled-Chromium build flags'' @ [NL]
                                          @ ungoogled_flags) s2) of
                              Inl e \<Rightarrow> build_flags_failed e s2
                            | Inr s3 \<Rightarrow> (True, log INFO ''Build flags applied'' s3)))))"

subsection \<open>Verification\<close>

text \<open>A marker is \<open>Some text\<close>, or \<open>None\<close> for the source's \<open>False\<close>.\<close>

definition verification_markers :: "(string \<times> string option) list" where
  "verification_markers =
     [(''chrome/browser/chrome_browser_main.cc'', Some ''ungoogled-chromium''),
      (''chrome/browser/about_flags.cc'', Some ''ungoogled-chromium''),
      (''google_apis/BUILD.gn'', None)]"

fun verify_loop ::
  "env \<Rightarrow> UngoogledPatcher \<Rightarrow> (string \<times> string option) list \<Rightarrow> nat \<Rightarrow> state \<Rightarrow> nat \<times> state" where
  "verify_loop E self [] verified_count s = (verified_count, s)"
| "verify_loop E self ((file_path, marker) # rest) verified_count s =
     (let target_file = joinpath (chromium_dir self) file_path
      in if exists_fs (fs s) target_file
         then (case read_text E target_file s of
                 Inl e \<Rightarrow> verify_loop E self rest verified_count s
               | Inr content \<Rightarrow>
                   (case marker of
                      None \<Rightarrow> verify_loop E self rest (verified_count + 1) s
                    | Some m \<Rightarrow>
                        if contains m content
                        then verify_loop E self rest (verified_count + 1)
                               (log DEBUG (''Verified marker in: '' @ file_path) s)
                        else verify_loop E self rest verified_count s))
         else verify_loop E self rest verified_count s)"

definition verify_patches :: "env \<Rightarrow> UngoogledPatcher \<Rightarrow> state \<Rightarrow> bool \<times> state" where
  "verify_patches E self s0 =
     (let s1 = log INFO ''Verifying patch application...'' s0
      in case verify_loop E self verification_markers 0 s1 of
           (verified_count, s2) \<Rightarrow>
             (verified_count > 0,
              log INFO (''Verified '' @ str_nat verified_count @ ''/''
                        @ str_nat (length verification_markers) @ '' patch markers'') s2))"


subsection \<open>The pipeline\<close>

definition record_step :: "bool \<Rightarrow> string \<Rightarrow> string list \<Rightarrow> string list" where
  "record_step ok label success_steps = (if ok then success_steps @ [label] else success_steps)"

text \<open>
  \<open>run_all\<close>. An exception that leaves one of the three patch phases is not caught
  here either, and ends the run (\<open>Inl\<close>).
\<close>

definition ungoogled_run_all ::
  "env \<Rightarrow> UngoogledPatcher \<Rightarrow> state \<Rightarrow> (string + bool) \<times> state" where
  "ungoogled_run_all E self s0 =
     (let s1 = log INFO ''Starting complete ungoogled-chromium patch application...'' s0
      in case apply_core_patches E self s1 of
           (Inl e, s2) \<Rightarrow> (Inl e, s2)
         | (Inr core, s2) \<Rightarrow>
        (case apply_extra_patches E self s2 of
           (Inl e, s3) \<Rightarrow> (Inl e, s3)
         | (Inr extra, s3) \<Rightarrow>
        (case apply_inox_patches E self s3 of
           (Inl e, s4) \<Rightarrow> (Inl e, s4)
         | (Inr inox, s4) \<Rightarrow>
        (case apply_domain_substitution E self s4 of (substituted, s5) \<Rightarrow>
        (case apply_pruning E self s5 of (pruned, s6) \<Rightarrow>
        (case apply_build_flags E self s6 of (flagged, s7) \<Rightarrow>
        (case verify_patches E self s7 of (verified, s8) \<Rightarrow>
           (let success_steps =
                  record_step verified ''verification''
                    (record_step flagged ''build flags''
                      (record_step pruned ''pruning''
                        (record_step substituted ''domain substitution''
                          (record_step inox ''inox patches''
                            (record_step extra ''extra patches''
                              (record_step core ''core patches'' []))))));
                s9 = log INFO (''Completed steps: '' @ join '', '' success_steps) s8
            in if length success_steps \<ge> 5
               then (Inr True, log INFO ''Ungoogled-chromium patches applied successfully!'' s9)
               else (Inr False, log ERROR ''Some critical patching steps failed'' s9)))))))))"

text \<open>
  The constructor and \<open>main\<close>. \<open>Inl code\<close> is \<open>sys.exit(code)\<close>; the result of
  \<open>main\<close> is the exit status of the process, which is 1 when an exception is not caught.
\<close>

definition required_files :: "string list" where
  "required_files =
     [''patches'', ''domain_substitution.list'', ''domain_regex.list'', ''pruning.list'',
      ''flags.gn'']"

fun required_loop :: "UngoogledPatcher \<Rightarrow> string list \<Rightarrow> state \<Rightarrow> (nat + unit) \<times> state" where
  "required_loop self [] s = (Inr (), s)"
| "required_loop self (file_path # rest) s =
     (if \<not> exists_fs (fs s) (joinpath (ungoogled_dir self) file_path)
      then (Inl 1, log ERROR (''Required ungoogled file missing: '' @ file_path) s)
      else required_loop self rest s)"

definition ungoogled_validate_directories ::
  "UngoogledPatcher \<Rightarrow> state \<Rightarrow> (nat + unit) \<times> state" where
  "ungoogled_validate_directories self s =
     (if \<not> exists_fs (fs s) (ungoogled_dir self)
      then (Inl 1,
            log ERROR (''Ungoogled directory not found: '' @ path_str (ungoogled_dir self)) s)
      else if \<not> exists_fs (fs s) (chromium_dir self)
      then (Inl 1,
            log ERROR (''Chromium directory not found: '' @ path_str (chromium_dir self)) s)
      else required_loop self required_files s)"

definition ungoogled_init ::
  "env \<Rightarrow> path \<Rightarrow> path \<Rightarrow> state \<Rightarrow> (nat + UngoogledPatcher) \<times> state" where
  "ungoogled_init E ungoogled_dir' chromium_dir' s0 =
     (let self = \<lparr>chromium_dir = chromium_dir', ungoogled_dir = ungoogled_dir'\<rparr>
      in case ungoogled_validate_directories self s0 of
           (Inl code, s1) \<Rightarrow> (Inl code, s1)
         | (Inr u, s1) \<Rightarrow>
             (case init_import_error E of
                Some e \<Rightarrow>
                  (Inl 1,
                   log ERROR (''Failed to import ungoogled-chromium utilities: '' @ e) s1)
              | None \<Rightarrow> (Inr self, s1)))"

definition ungoogled_main :: "env \<Rightarrow> path \<Rightarrow> path \<Rightarrow> state \<Rightarrow> nat \<times> state" where
  "ungoogled_main E ungoogled_dir' chromium_dir' s0 =
     (case ungoogled_init E ungoogled_dir' chromium_dir' s0 of
        (Inl code, s1) \<Rightarrow> (code, s1)
      | (Inr patcher, s1) \<Rightarrow>
          (case ungoogled_run_all E patcher s1 of
             (Inl e, s2) \<Rightarrow> (1, s2)
           | (Inr success, s2) \<Rightarrow> (if success then 0 else 1, s2)))"

section \<open>apply-clang-optimizations.py\<close>

record ClangOptimizer = target +
  clang_dir :: path
  target_arch :: string

subsection \<open>Patch application\<close>

definition clang_git_apply_cmd :: "path \<Rightarrow> string list" where
  "clang_git_apply_cmd patch_path =
     [''git'', ''apply'', ''--ignore-whitespace'', ''--ignore-space-change'', ''--reject'',
      path_str patch_path]"

definition clang_patch_cmd :: "path \<Rightarrow> string list" where
  "clang_patch_cmd patch_path =
     [''patch'', ''-p1'', ''-i'', path_str patch_path, ''--ignore-whitespace'',
      ''--reject-file=-'']"

definition clang_apply_patch_fallback ::
  "env \<Rightarrow> ClangOptimizer \<Rightarrow> path \<Rightarrow> state \<Rightarrow> bool \<times> state" where
  "clang_apply_patch_fallback E self patch_path s0 =
     (let cmd = clang_patch_cmd patch_path
      in case run E cmd (chromium_dir self) s0 of
           (Raised e, s1) \<Rightarrow> (False, log ERROR (''Fallback patch exception: '' @ e) s1)
         | (Completed rc out err, s1) \<Rightarrow>
             if rc = 0
             then (True, log DEBUG (''Fallback patch successful: '' @ name patch_path) s1)
             else if contains ''succeeded'' (lower out)
             then (True, log WARNING (''Partial patch success: '' @ name patch_path) s1)
             else (False, log DEBUG (''Fallback patch failed: '' @ name patch_path) s1))"

definition apply_patch :: "env \<Rightarrow> ClangOptimizer \<Rightarrow> path \<Rightarrow> state \<Rightarrow> bool \<times> state" where
  "apply_patch E self patch_path s0 =
     (let s1 = log DEBUG (''Applying optimization patch: '' @ name patch_path) s0;
          cmd = clang_git_apply_cmd patch_path
      in case run E cmd (chromium_dir self) s1 of
           (Raised e, s2) \<Rightarrow>
             (False,
              log ERROR (''Exception applying patch '' @ name patch_path @ '': '' @ e) s2)
         | (Completed rc out err, s2) \<Rightarrow>
             if rc = 0
             then (True, log DEBUG (''Successfully applied: '' @ name patch_path) s2)
             else clang_apply_patch_fallback E self patch_path
                    (log DEBUG (''Git apply failed for '' @ name patch_path
                                @ '', trying patch command'') s2))"

text \<open>
  The loop that the three patch groups share; \<open>failed\<close> is the text of the group's
  warning for a patch that did not apply.
\<close>

fun group_loop ::
  "env \<Rightarrow> ClangOptimizer \<Rightarrow> string \<Rightarrow> path list \<Rightarrow> nat \<Rightarrow> state \<Rightarrow> nat \<times> state" where
  "group_loop E self failed [] success_count s = (success_count, s)"
| "group_loop E self failed (patch_file # rest) success_count s =
     (case apply_patch E self patch_file s of
        (True, s') \<Rightarrow> group_loop E self failed rest (success_count + 1) s'
      | (False, s') \<Rightarrow>
          group_loop E self failed rest success_count
            (log WARNING (failed @ name patch_file) s'))"

definition apply_v8_optimizations :: "env \<Rightarrow> ClangOptimizer \<Rightarrow> state \<Rightarrow> bool \<times> state" where
  "apply_v8_optimizations E self s0 =
     (let s1 = log INFO ''Applying V8 engine optimizations...'' s0;
          v8_patch_dir = joinpath (clang_dir self) ''V8''
      in if \<not> exists_fs (fs s1) v8_patch_dir
         then (False, log WARNING ''V8 patch directory not found'' s1)
         else (let v8_patches = glob (fs s1) v8_patch_dir ''*.patch''
               in case group_loop E self ''V8 patch failed: '' v8_patches 0 s1 of
                    (success_count, s2) \<Rightarrow>
                      (success_count > 0,
                       log INFO (''Applied '' @ str_nat success_count @ ''/''
                                 @ str_nat (length v8_patches)
                                 @ '' V8 optimization patches'') s2)))"

definition windows_patches :: "ClangOptimizer \<Rightarrow> filesystem \<Rightarrow> path \<Rightarrow> path list" where
  "windows_patches self t win_patch_dir =
     (let arch_patches =
            (if target_arch self = ''avx512'' then glob t win_patch_dir ''*avx512*.patch''
             else if target_arch self = ''avx2'' then glob t win_patch_dir ''*avx2*.patch''
             else []);
          general_patches =
            [p \<leftarrow> glob t win_patch_dir ''*.patch''. \<not> contains ''avx'' (lower (name p))]
      in arch_patches @ general_patches)"

definition apply_windows_optimizations ::
  "env \<Rightarrow> ClangOptimizer \<Rightarrow> state \<Rightarrow> bool \<times> state" where
  "apply_windows_optimizations E self s0 =
     (let s1 = log INFO ''Applying Windows optimization patches...'' s0;
          win_patch_dir = joinpath (clang_dir self) ''Windows''
      in if \<not> exists_fs (fs s1) win_patch_dir
         then (False, log WARNING ''Windows patch directory not found'' s1)
         else (let all_patches = windows_patches self (fs s1) win_patch_dir
               in case group_loop E self ''Windows patch failed: '' all_patches 0 s1 of
                    (success_count, s2) \<Rightarrow>
                      (success_count > 0,
                       log INFO (''Applied '' @ str_nat success_count @ ''/''
                                 @ str_nat (length all_patches)
                                 @ '' Windows optimization patches'') s2)))"

definition linux_patches :: "filesystem \<Rightarrow> path \<Rightarrow> path list" where
  "linux_patches t linux_patch_dir =
     [p \<leftarrow> glob t linux_patch_dir ''*.patch''.
        \<not> list_ex (\<lambda>skip. contains skip (lower (name p))) [''alsa'', ''gtk'', ''x11'', ''wayland'']]"

definition apply_linux_optimizations ::
  "env \<Rightarrow> ClangOptimizer \<Rightarrow> state \<Rightarrow> bool \<times> state" where
  "apply_linux_optimizations E self s0 =
     (let s1 = log INFO ''Applying cross-platform optimization patches...'' s0;
          linux_patch_dir = joinpath (clang_dir self) ''Linux''
      in if \<not> exists_fs (fs s1) linux_patch_dir
         then (False, log WARNING ''Linux patch directory not found'' s1)
         else (let cross_platform_patches = linux_patches (fs s1) linux_patch_dir
               in case group_loop E self ''Cross-platform patch failed: ''
                         cross_platform_patches 0 s1 of
                    (success_count, s2) \<Rightarrow>
                      (success_count > 0,
                       log INFO (''Applied '' @ str_nat success_count @ ''/''
                                 @ str_nat (length cross_platform_patches)
                                 @ '' cross-platform patches'') s2)))"

subsection \<open>Build arguments\<close>

definition generate_optimization_flags :: "ClangOptimizer \<Rightarrow> string" where
  \<open>generate_optimization_flags self =
     join [NL]
       ([''# Link Time Optimization'',
         ''use_thin_lto = true'',
         ''use_lld = true'',
         ''thin_lto_enable_optimizations = true'',
         ''use_text_section_splitting = true'',
         []]
        @ [''# Profile Guided Optimization'',
           ''chrome_pgo_phase = 2'',
           ''pgo_data_path = ""'',
           []]
        @ [''# Polly High-level Optimizations'',
           ''use_polly = true'',
           []]
        @ (if target_arch self = ''avx512''
           then [''# AVX512 Optimization Flags'',
                 ''common_optimize_on_cflags = ['',
                 ''  "-march=skylake-avx512",'',
                 ''  "-mtune=skylake-avx512",'',
                 ''  "-mavx512f",'',
                 ''  "-mavx512cd",'',
                 ''  "-mavx512vl",'',
                 ''  "-mavx512bw",'',
                 ''  "-mavx512dq",'',
                 ''  "-mfma",'',
                 '']'',
                 []]
           else [])
        @ [''# Fast-math Optimizations'',
           ''common_optimize_on_cflags += ['',
           ''  "-ffast-math",'',
           ''  "-funsafe-math-optimizations",'',
           ''  "-ffinite-math-only",'',
           ''  "-fno-signed-zeros",'',
           ''  "-fno-trapping-math",'',
           ''  "-fassociative-math",'',
           ''  "-freciprocal-math",'',
           '']'',
           []]
        @ [''# Vectorization Optimizations'',
           ''common_optimize_on_cflags += ['',
           ''  "-ftree-vectorize",'',
           ''  "-ftree-slp-vectorize",'',
           ''  "-fvectorize",'',
           ''  "-fslp-vectorize",'',
           '']'',
           []]
        @ [''# Advanced Linker Optimizations'',
           ''common_optimize_on_ldflags = ['',
           ''  "-fuse-ld=lld",'',
           ''  "-Wl,--lto-O3",'',
           ''  "-Wl,--icf=all",'',
           ''  "-Wl,--gc-sections",'',
           '']'',
           []]
        @ [''# V8 Engine Optimizations'',
           ''v8_enable_builtins_optimization = true'',
           ''v8_enable_fast_torque = true'',
           ''v8_enable_turbofan = true'',
           []])\<close>

definition build_args_failed :: "string \<Rightarrow> state \<Rightarrow> bool \<times> state" where
  "build_args_failed e s = (False, log ERROR (''Failed to configure build args: '' @ e) s)"

definition configure_build_args :: "env \<Rightarrow> ClangOptimizer \<Rightarrow> state \<Rightarrow> bool \<times> state" where
  "configure_build_args E self s0 =
     (let s1 = log INFO ''Configuring Clang optimization build arguments...'' s0;
          args_file = args_gn self
      in case mkdir_parents E (parent args_file) s1 of
           Inl e \<Rightarrow> build_args_failed e s1
         | Inr s2 \<Rightarrow>
             (case (if exists_fs (fs s2) args_file then read_text E args_file s2 else Inr []) of
                Inl e \<Rightarrow> build_args_failed e s2
              | Inr existing_args \<Rightarrow>
                  (let optimization_flags = generate_optimization_flags self
                   in case write_text E args_file
                             (existing_args @ [NL, NL] @ ''# Chromium Clang Optimizations''
                              @ [NL] @ optimization_flags) s2 of
                        Inl e \<Rightarrow> build_args_failed e s2
                      | Inr s3 \<Rightarrow>
                          (True,
                           log INFO ''Build arguments configured with Clang optimizations''
                             s3))))"

subsection \<open>Toolchain\<close>

definition clang_update_script :: "ClangOptimizer \<Rightarrow> path" where
  "clang_update_script self =
     joinpath (joinpath (joinpath (joinpath (chromium_dir self) ''tools'') ''clang'')
                 ''scripts'') ''update.py''"

definition toolchain_cmd :: "env \<Rightarrow> ClangOptimizer \<Rightarrow> string list" where
  "toolchain_cmd E self =
     [''python3'', path_str (clang_update_script self), ''--bootstrap'', ''--without-android'',
      ''--without-fuchsia'', ''--disable-asserts'', ''--thinlto'', ''--pgo'']
     @ (if which E ''llvm-bolt'' then [''--bolt''] else [])"

definition setup_custom_toolchain :: "env \<Rightarrow> ClangOptimizer \<Rightarrow> state \<Rightarrow> bool \<times> state" where
  "setup_custom_toolchain E self s0 =
     (let s1 = log INFO ''Setting up custom optimized Clang toolchain...'' s0
      in if exists_fs (fs s1) (clang_update_script self)
         then (let cmd = toolchain_cmd E self
               in case run E cmd (chromium_dir self) s1 of
                    (Raised e, s2) \<Rightarrow> (True, log ERROR (''Toolchain setup failed: '' @ e) s2)
                  | (Completed rc out err, s2) \<Rightarrow>
                      if rc = 0
                      then (True, log INFO ''Custom Clang toolchain setup complete'' s2)
                      else (True,
                            log WARNING ''Custom toolchain setup had issues, continuing...''
                              s2))
         else (True,
               log WARNING ''Clang update script not found, using default toolchain'' s1))"

subsection \<open>Verification\<close>

definition verification_points :: "ClangOptimizer \<Rightarrow> (string \<times> string) list" where
  "verification_points self =
     [(''build/config/compiler/BUILD.gn'', ''O3''),
      (''build/config/compiler/BUILD.gn'', ''lto''),
      (''BUILD.gn'', upper (target_arch self))]"

fun points_loop ::
  "env \<Rightarrow> ClangOptimizer \<Rightarrow> (string \<times> string) list \<Rightarrow> nat \<Rightarrow> state \<Rightarrow> nat \<times> state" where
  "points_loop E self [] verified_count s = (verified_count, s)"
| "points_loop E self ((file_path, marker) # rest) verified_count s =
     (let target_file = joinpath (chromium_dir self) file_path
      in if exists_fs (fs s) target_file
         then (case read_text E target_file s of
                 Inl e \<Rightarrow> points_loop E self rest verified_count s
               | Inr text \<Rightarrow>
                   if contains (lower marker) (lower text)
                   then points_loop E self rest (verified_count + 1)
                          (log DEBUG (''Verified optimization in: '' @ file_path) s)
                   else points_loop E self rest verified_count s)
         else points_loop E self rest verified_count s)"

definition verify_optimizations :: "env \<Rightarrow> ClangOptimizer \<Rightarrow> state \<Rightarrow> bool \<times> state" where
  "verify_optimizations E self s0 =
     (let s1 = log INFO ''Verifying optimization patches...'' s0
      in case points_loop E self (verification_points self) 0 s1 of
           (n, s2) \<Rightarrow>
             (let args_file = args_gn self;
                  verified_count =
                    (if exists_fs (fs s2) args_file
                     then (case read_text E args_file s2 of
                             Inl e \<Rightarrow> n
                           | Inr text \<Rightarrow>
                               if contains ''thin_lto'' (lower text)
                                  \<and> contains ''polly'' (lower text)
                               then n + 1 else n)
                     else n)
              in (verified_count > 0,
                  log INFO (''Verified '' @ str_nat verified_count
                            @ '' optimization markers'') s2)))"

subsection \<open>The pipeline\<close>

definition clang_run_all :: "env \<Rightarrow> ClangOptimizer \<Rightarrow> state \<Rightarrow> bool \<times> state" where
  "clang_run_all E self s0 =
     (let s1 = log INFO ''Starting complete Clang optimization application...'' s0
      in case apply_v8_optimizations E self s1 of (v8, s2) \<Rightarrow>
        (case apply_windows_optimizations E self s2 of (windows, s3) \<Rightarrow>
        (case apply_linux_optimizations E self s3 of (linux, s4) \<Rightarrow>
        (case configure_build_args E self s4 of (configured, s5) \<Rightarrow>
        (case setup_custom_toolchain E self s5 of (toolchain, s6) \<Rightarrow>
        (case verify_optimizations E self s6 of (verified, s7) \<Rightarrow>
           (let success_steps =
                  record_step verified ''verification''
                    (record_step toolchain ''custom toolchain''
                      (record_step configured ''build configuration''
                        (record_step linux ''cross-platform optimizations''
                          (record_step windows ''Windows optimizations''
                            (record_step v8 ''V8 optimizations'' [])))));
                s8 = log INFO (''Completed steps: '' @ join '', '' success_steps) s7
            in if length success_steps \<ge> 4
               then (True, log INFO ''Chromium Clang optimizations applied successfully!'' s8)
               else (False, log ERROR ''Some critical optimization steps failed'' s8))))))))"

definition clang_validate_directories ::
  "ClangOptimizer \<Rightarrow> state \<Rightarrow> (nat + unit) \<times> state" where
  "clang_validate_directories self s =
     (if \<not> exists_fs (fs s) (clang_dir self)
      then (Inl 1,
            log ERROR (''Chromium Clang directory not found: '' @ path_str (clang_dir self)) s)
      else if \<not> exists_fs (fs s) (chromium_dir self)
      then (Inl 1,
            log ERROR (''Chromium directory not found: '' @ path_str (chromium_dir self)) s)
      else (Inr (), s))"

definition clang_main :: "env \<Rightarrow> path \<Rightarrow> path \<Rightarrow> string \<Rightarrow> state \<Rightarrow> nat \<times> state" where
  "clang_main E clang_dir' chromium_dir' target_arch' s0 =
     (let optimizer = \<lparr>chromium_dir = chromium_dir', clang_dir = clang_dir',
                        target_arch = target_arch'\<rparr>
      in case clang_validate_directories optimizer s0 of
           (Inl code, s1) \<Rightarrow> (code, s1)
         | (Inr u, s1) \<Rightarrow>
             (case clang_run_all E optimizer s1 of
                (success, s2) \<Rightarrow> (if success then 0 else 1, s2)))"

section \<open>Observing a run\<close>

text \<open>
  The events that a call adds to the trace, the command lines among them, and the
  messages logged at one level.
\<close>

definition events_of :: "(state \<Rightarrow> 'a \<times> state) \<Rightarrow> state \<Rightarrow> event list" where
  "events_of f s = drop (length (trace s)) (trace (snd (f s)))"

definition execs :: "event list \<Rightarrow> string list list" where
  "execs evs = [cmd. Exec cmd \<leftarrow> evs]"

definition logged :: "level \<Rightarrow> event list \<Rightarrow> string list" where
  "logged l evs = [m. Log l' m \<leftarrow> evs, l' = l]"

text \<open>How an external process ended.\<close>

definition exit_zero :: "proc \<Rightarrow> bool" where
  "exit_zero r = (case r of Raised e \<Rightarrow> False | Completed rc out err \<Rightarrow> rc = 0)"

definition exit_nonzero :: "proc \<Rightarrow> bool" where
  "exit_nonzero r = (case r of Raised e \<Rightarrow> False | Completed rc out err \<Rightarrow> rc \<noteq> 0)"

definition raised :: "proc \<Rightarrow> bool" where
  "raised r = (case r of Raised e \<Rightarrow> True | Completed rc out err \<Rightarrow> False)"

definition stdout :: "proc \<Rightarrow> string" where
  "stdout r = (case r of Raised e \<Rightarrow> [] | Completed rc out err \<Rightarrow> out)"

text \<open>
  What the primary command of a patch step does on the tree of \<open>s\<close>, and what the
  fallback command does on the tree that the primary command leaves.
\<close>

definition ungoogled_primary :: "env \<Rightarrow> UngoogledPatcher \<Rightarrow> path \<Rightarrow> state \<Rightarrow> proc \<times> filesystem" where
  "ungoogled_primary E self p s = exec E (ungoogled_git_apply_cmd p) (chromium_dir self) (fs s)"

definition ungoogled_fallback :: "env \<Rightarrow> UngoogledPatcher \<Rightarrow> path \<Rightarrow> state \<Rightarrow> proc \<times> filesystem" where
  "ungoogled_fallback E self p s =
     exec E (ungoogled_patch_cmd p) (chromium_dir self) (snd (ungoogled_primary E self p s))"

definition clang_primary :: "env \<Rightarrow> ClangOptimizer \<Rightarrow> path \<Rightarrow> state \<Rightarrow> proc \<times> filesystem" where
  "clang_primary E self p s = exec E (clang_git_apply_cmd p) (chromium_dir self) (fs s)"

definition clang_fallback :: "env \<Rightarrow> ClangOptimizer \<Rightarrow> path \<Rightarrow> state \<Rightarrow> proc \<times> filesystem" where
  "clang_fallback E self p s =
     exec E (clang_patch_cmd p) (chromium_dir self) (snd (clang_primary E self p s))"

definition partial_application :: "proc \<Rightarrow> bool" where
  "partial_application r = (exit_nonzero r \<and> contains ''succeeded'' (lower (stdout r)))"

text \<open>
  The primary commands among the events (one for each patch step that was attempted),
  and the warnings of \<open>_apply_patch_series\<close> for the listed files it skipped.
\<close>

definition git_applies :: "event list \<Rightarrow> string list list" where
  "git_applies evs = [c \<leftarrow> execs evs. take 2 c = [''git'', ''apply'']]"

definition skipped :: "event list \<Rightarrow> string list" where
  "skipped evs = [m \<leftarrow> logged WARNING evs. startswith m ''Patch file not found: '']"

text \<open>
  The messages that a patch step of the optimizer logs when it succeeds: one for each
  of the three ways in which \<open>_apply_patch\<close> returns \<open>True\<close>.
\<close>

definition applied_mark :: "event \<Rightarrow> bool" where
  "applied_mark e =
     (case e of
        Log l m \<Rightarrow>
          l = DEBUG \<and> (startswith m ''Successfully applied: ''
                        \<or> startswith m ''Fallback patch successful: '')
          \<or> l = WARNING \<and> startswith m ''Partial patch success: ''
      | Exec c \<Rightarrow> False
      | Write p c \<Rightarrow> False)"

definition applied :: "event list \<Rightarrow> event list" where
  "applied evs = filter applied_mark evs"


text \<open>
  The messages with which the phases of the two pipelines start, and those of them
  among the events.
\<close>

definition ungoogled_phases :: "string list" where
  "ungoogled_phases =
     [''Applying core privacy patches...'',
      ''Applying extra privacy patches...'',
      ''Applying Inox security patches...'',
      ''Applying domain substitution...'',
      ''Applying pruning list...'',
      ''Applying ungoogled-chromium build flags...'',
      ''Verifying patch application...'']"

definition clang_phases :: "string list" where
  "clang_phases =
     [''Applying V8 engine optimizations...'',
      ''Applying Windows optimization patches...'',
      ''Applying cross-platform optimization patches...'',
      ''Configuring Clang optimization build arguments...'',
      ''Setting up custom optimized Clang toolchain...'',
      ''Verifying optimization patches...'']"

definition phase_starts :: "event list \<Rightarrow> string list" where
  "phase_starts evs = [m \<leftarrow> logged INFO evs. m \<in> set (ungoogled_phases @ clang_phases)]"


section \<open>Example runs\<close>

text \<open>
  Small environments for concrete runs: no file operation raises, and an external
  command ends as \<open>git\<close> says when it is a \<open>git\<close> command and as \<open>other\<close> says
  otherwise, leaving the tree as it is.
\<close>

definition no_fault :: "ioop \<Rightarrow> path \<Rightarrow> string option" where
  "no_fault op p = None"

definition tool :: "proc \<Rightarrow> proc \<Rightarrow> string list \<Rightarrow> path \<Rightarrow> filesystem \<Rightarrow> proc \<times> filesystem" where
  "tool git other cmd cwd t = (if hd cmd = ''git'' then git else other, t)"

definition world :: "(string list \<Rightarrow> path \<Rightarrow> filesystem \<Rightarrow> proc \<times> filesystem) \<Rightarrow> env" where
  "world x = \<lparr>exec = x, fault = no_fault, which = (\<lambda>t. False), init_import_error = None,
              subst_import_error = None, re_other = (\<lambda>p r c. Inr c)\<rparr>"

definition ok :: proc where
  "ok = Completed 0 [] []"

definition rejected :: proc where
  "rejected = Completed 1 [] ''error: patch does not apply''"

definition partly :: proc where
  "partly = Completed 1 ''Hunk #1 succeeded at 3. Hunk #2 FAILED at 9.'' []"

definition missing :: proc where
  "missing = Raised ''[Errno 2] No such file or directory''"

definition example_patcher :: UngoogledPatcher where
  "example_patcher = \<lparr>chromium_dir = [''src''], ungoogled_dir = [''ungoogled'']\<rparr>"

definition example_optimizer :: ClangOptimizer where
  "example_optimizer = \<lparr>chromium_dir = [''src''], clang_dir = [''clang''],
                         target_arch = ''avx512''\<rparr>"

definition a_patch :: path where
  "a_patch = [''ungoogled'', ''patches'', ''core'', ''a.patch'']"

definition start :: "filesystem \<Rightarrow> state" where
  "start t = \<lparr>fs = t, trace = []\<rparr>"

text \<open>
  A patch directory with a \<open>series\<close> file that lists the files \<open>listed\<close> and holds
  the patch files \<open>present\<close>, and external commands that reject the patch file
  \<open>bad\<close> and apply any other.
\<close>

definition core_dir :: path where
  "core_dir = [''ungoogled'', ''patches'', ''core'']"

definition series_tree :: "string list \<Rightarrow> string list \<Rightarrow> filesystem" where
  "series_tree listed present =
     (core_dir, Dir) # (core_dir @ [''series''], File (join [NL] listed))
     # map (\<lambda>n. (core_dir @ [n], File [])) present"

definition rejecting :: "string \<Rightarrow> string list \<Rightarrow> path \<Rightarrow> filesystem \<Rightarrow> proc \<times> filesystem" where
  "rejecting bad cmd cwd t = (if bad \<in> set cmd then rejected else ok, t)"

text \<open>
  A tree for the optimizer: two patches for V8 and the update script of the toolchain.
\<close>

definition optimizer_tree :: filesystem where
  "optimizer_tree =
     [([''clang''], Dir),
      ([''clang'', ''V8''], Dir),
      ([''clang'', ''V8'', ''one.patch''], File []),
      ([''clang'', ''V8'', ''two.patch''], File []),
      ([''src''], Dir),
      ([''src'', ''tools''], Dir),
      ([''src'', ''tools'', ''clang''], Dir),
      ([''src'', ''tools'', ''clang'', ''scripts''], Dir),
      ([''src'', ''tools'', ''clang'', ''scripts'', ''update.py''], File [])]"

text \<open>
  A tree for the whole pipeline of the patcher, given the node at
  \<open>patches/core/series\<close>, and an environment in which the import inside
  \<open>apply_domain_substitution\<close> fails.
\<close>

definition pipeline_tree :: "node \<Rightarrow> filesystem" where
  \<open>pipeline_tree series =
     [([''ungoogled''], Dir),
      ([''ungoogled'', ''patches''], Dir),
      ([''ungoogled'', ''patches'', ''core''], Dir),
      ([''ungoogled'', ''patches'', ''core'', ''series''], series),
      ([''ungoogled'', ''patches'', ''core'', ''a.patch''], File []),
      ([''ungoogled'', ''patches'', ''extra''], Dir),
      ([''ungoogled'', ''patches'', ''inox-patchset''], Dir),
      ([''ungoogled'', ''domain_substitution.list''], File ''page.html''),
      ([''ungoogled'', ''domain_regex.list''],
         File (''example'' @ [BACKSLASH] @ ''.com@example.invalid'')),
      ([''ungoogled'', ''pruning.list''], File ''junk''),
      ([''ungoogled'', ''flags.gn''], File ''enable_reporting=false''),
      ([''src''], Dir),
      ([''src'', ''page.html''], File ''https://example.com/x''),
      ([''src'', ''junk''], File [])]\<close>

definition import_fails :: env where
  "import_fails =
     (world (tool ok ok))\<lparr>subst_import_error := Some ''cannot import name SubstitutionDescriptor''\<rparr>"

text \<open>
  The tree of the optimizer with patches for Windows and Linux as well, and with a file
  where the directory \<open>out\<close> of the build arguments would be.
\<close>

definition blocked_tree :: filesystem where
  "blocked_tree =
     ([''src'', ''out''], File [])
     # ([''clang'', ''Windows''], Dir) # ([''clang'', ''Windows'', ''w.patch''], File [])
     # ([''clang'', ''Linux''], Dir) # ([''clang'', ''Linux'', ''l.patch''], File [])
     # optimizer_tree"

text \<open>An environment in which the removal of the path \<open>p\<close> is refused.\<close>

definition denied :: "path \<Rightarrow> env" where
  "denied p =
     (world (tool ok ok))
       \<lparr>fault := (\<lambda>op q. if op = OpRemove \<and> q = p then Some ''[Errno 13] Permission denied''
                         else None)\<rparr>"

text \<open>
  The tree of the substitution scenario: one target file, one pair in the list of
  regular expressions.
\<close>

definition substitution_tree :: filesystem where
  "substitution_tree =
     [([''ungoogled''], Dir),
      ([''ungoogled'', ''domain_substitution.list''], File ''page.html''),
      ([''ungoogled'', ''domain_regex.list''],
         File (''example'' @ [BACKSLASH] @ ''.com@example.invalid'')),
      ([''src''], Dir),
      ([''src'', ''page.html''], File ''https://example.com/x'')]"

text \<open>An environment in which the operation \<open>op\<close> on the path \<open>p\<close> raises.\<close>

definition failing :: "ioop \<Rightarrow> path \<Rightarrow> env" where
  "failing op p =
     (world (tool ok ok))
       \<lparr>fault := (\<lambda>op' q. if op' = op \<and> q = p then Some ''[Errno 13] Permission denied''
                          else None)\<rparr>"

section \<open>Facts about the trace\<close>

lemma trace_log [simp]: "trace (log l m s) = trace s @ [Log l m]"
  by (simp add: log_def)

lemma fs_log [simp]: "fs (log l m s) = fs s"
  by (simp add: log_def)

lemma execs_simps [simp]:
  "execs [] = []"
  "execs (Exec c # evs) = c # execs evs"
  "execs (Log l m # evs) = execs evs"
  "execs (Write p x # evs) = execs evs"
  "execs (xs @ ys) = execs xs @ execs ys"
  by (simp_all add: execs_def)

lemma logged_simps [simp]:
  "logged l [] = []"
  "logged l (Exec c # evs) = logged l evs"
  "logged l (Log l' m # evs) = (if l' = l then m # logged l evs else logged l evs)"
  "logged l (Write p x # evs) = logged l evs"
  "logged l (xs @ ys) = logged l xs @ logged l ys"
  by (simp_all add: logged_def)

lemma git_applies_simps [simp]:
  "git_applies [] = []"
  "git_applies (Exec c # evs) =
     (if take 2 c = [''git'', ''apply''] then c # git_applies evs else git_applies evs)"
  "git_applies (Log l m # evs) = git_applies evs"
  "git_applies (Write q x # evs) = git_applies evs"
  "git_applies (xs @ ys) = git_applies xs @ git_applies ys"
  by (simp_all add: git_applies_def)

lemma git_apply_cmds [simp]:
  "take 2 (ungoogled_git_apply_cmd p) = [''git'', ''apply'']"
  "take 2 (ungoogled_patch_cmd p) \<noteq> [''git'', ''apply'']"
  "take 2 (clang_git_apply_cmd p) = [''git'', ''apply'']"
  "take 2 (clang_patch_cmd p) \<noteq> [''git'', ''apply'']"
  by (simp_all add: ungoogled_git_apply_cmd_def ungoogled_patch_cmd_def
        clang_git_apply_cmd_def clang_patch_cmd_def)

lemma grows_events_of:
  "\<exists>evs. trace (snd (f s)) = trace s @ evs \<Longrightarrow> trace (snd (f s)) = trace s @ events_of f s"
  by (auto simp: events_of_def)

lemmas patch_step_defs =
  events_of_def apply_single_patch_def ungoogled_apply_patch_fallback_def
  apply_patch_def clang_apply_patch_fallback_def run_def Let_def
  ungoogled_primary_def ungoogled_fallback_def clang_primary_def clang_fallback_def
  exit_zero_def exit_nonzero_def raised_def stdout_def partial_application_def

section \<open>One patch step\<close>










section \<open>Partial application\<close>

lemma clang_partial_success:
  "exit_nonzero (fst (clang_primary E self p s)) \<Longrightarrow>
   partial_application (fst (clang_fallback E self p s)) \<Longrightarrow>
     fst (apply_patch E self p s)
     \<and> logged WARNING (events_of (apply_patch E self p) s) = [''Partial patch success: '' @ name p]"
  by (simp add: patch_step_defs case_prod_beta split: proc.splits)

lemma group_loop_counts:
  "fst (apply_patch E self p s) \<Longrightarrow>
     group_loop E self failed (p # rest) c s
       = group_loop E self failed rest (c + 1) (snd (apply_patch E self p s))"
  by (simp add: case_prod_beta)

lemma ungoogled_no_partial_success:
  "exit_nonzero (fst (ungoogled_primary E self p s)) \<Longrightarrow>
   exit_nonzero (fst (ungoogled_fallback E self p s)) \<Longrightarrow>
     \<not> fst (apply_single_patch E self p s)
     \<and> logged WARNING (events_of (apply_single_patch E self p) s) = []
     \<and> ''Fallback patch failed: '' @ name p
          \<in> set (logged ERROR (events_of (apply_single_patch E self p) s))"
  by (simp add: patch_step_defs case_prod_beta split: proc.splits)

text \<open>
  C5 (as amended). In the optimizer, a patch step whose primary command exits non-zero
  and whose fallback command exits non-zero while its output reports a hunk that
  succeeded is a success: it is logged as a warning and the loop of its group counts
  it. In the patcher a fallback command that exits non-zero makes the step fail,
  whatever its output says, with an error and no warning in the log.
\<close>

theorem partial_application_soft_success:
  "(exit_nonzero (fst (clang_primary E self p s))
      \<and> partial_application (fst (clang_fallback E self p s)) \<longrightarrow>
        fst (apply_patch E self p s)
        \<and> logged WARNING (events_of (apply_patch E self p) s)
            = [''Partial patch success: '' @ name p]
        \<and> group_loop E self failed (p # rest) c s
            = group_loop E self failed rest (c + 1) (snd (apply_patch E self p s)))
   \<and> (exit_nonzero (fst (ungoogled_primary E' self' p s))
      \<and> exit_nonzero (fst (ungoogled_fallback E' self' p s)) \<longrightarrow>
        \<not> fst (apply_single_patch E' self' p s)
        \<and> logged WARNING (events_of (apply_single_patch E' self' p) s) = []
        \<and> ''Fallback patch failed: '' @ name p
             \<in> set (logged ERROR (events_of (apply_single_patch E' self' p) s)))"
  using clang_partial_success [of E self p s] group_loop_counts [of E self p s failed rest c]
    ungoogled_no_partial_success [of E' self' p s]
  by blast

theorem partial_application_soft_success_witness:
  "exit_nonzero (fst (clang_primary (world (tool rejected partly)) example_optimizer a_patch
                        (start [])))
   \<and> partial_application (fst (clang_fallback (world (tool rejected partly)) example_optimizer
                                  a_patch (start [])))
   \<and> fst (apply_patch (world (tool rejected partly)) example_optimizer a_patch (start []))
   \<and> fst (group_loop (world (tool rejected partly)) example_optimizer ''V8 patch failed: ''
             [a_patch] 0 (start [])) = 1
   \<and> exit_nonzero (fst (ungoogled_primary (world (tool rejected rejected)) example_patcher
                           a_patch (start [])))
   \<and> exit_nonzero (fst (ungoogled_fallback (world (tool rejected rejected)) example_patcher
                           a_patch (start [])))
   \<and> \<not> fst (apply_single_patch (world (tool rejected rejected)) example_patcher a_patch
              (start []))"
proof -
  have h1: "exit_nonzero (fst (clang_primary (world (tool rejected partly)) example_optimizer
      a_patch (start [])))"
    by code_simp
  have h2: "partial_application (fst (clang_fallback (world (tool rejected partly))
      example_optimizer a_patch (start [])))"
    by code_simp
  have h3: "exit_nonzero (fst (ungoogled_primary (world (tool rejected rejected))
      example_patcher a_patch (start [])))"
    by code_simp
  have h4: "exit_nonzero (fst (ungoogled_fallback (world (tool rejected rejected))
      example_patcher a_patch (start [])))"
    by code_simp
  note t = partial_application_soft_success [of "world (tool rejected partly)"
      example_optimizer a_patch "start []" "''V8 patch failed: ''" "[]" 0
      "world (tool rejected rejected)" example_patcher]
  from t h1 h2 have a: "fst (apply_patch (world (tool rejected partly)) example_optimizer
      a_patch (start []))"
    by blast
  from t h1 h2 have "group_loop (world (tool rejected partly)) example_optimizer
      ''V8 patch failed: '' [a_patch] 0 (start [])
      = group_loop (world (tool rejected partly)) example_optimizer ''V8 patch failed: '' []
          (0 + 1) (snd (apply_patch (world (tool rejected partly)) example_optimizer a_patch
             (start [])))"
    by blast
  then have b: "fst (group_loop (world (tool rejected partly)) example_optimizer
      ''V8 patch failed: '' [a_patch] 0 (start [])) = 1"
    by (simp del: group_loop.simps(2))
  from t h3 h4 have c: "\<not> fst (apply_single_patch (world (tool rejected rejected))
      example_patcher a_patch (start []))"
    by blast
  from h1 h2 h3 h4 a b c show ?thesis by blast
qed

theorem partial_application_soft_success_counterexample:
  "exit_nonzero (fst (ungoogled_primary (world (tool rejected partly)) example_patcher a_patch
                        (start [])))
   \<and> partial_application (fst (ungoogled_fallback (world (tool rejected partly))
                                  example_patcher a_patch (start [])))
   \<and> \<not> fst (apply_single_patch (world (tool rejected partly)) example_patcher a_patch
              (start []))
   \<and> logged WARNING (events_of (apply_single_patch (world (tool rejected partly))
                                  example_patcher a_patch) (start [])) = []
   \<and> fst (patch_loop (world (tool rejected partly)) example_patcher
             [''ungoogled'', ''patches'', ''core''] [''a.patch''] 0
             (start [(a_patch, File [])])) = None"
  by code_simp

section \<open>The patch series of the patcher\<close>

lemma skipped_simps [simp]:
  "skipped [] = []"
  "skipped (Exec c # evs) = skipped evs"
  "skipped (Log l m # evs) =
     (if l = WARNING \<and> startswith m ''Patch file not found: '' then m # skipped evs
      else skipped evs)"
  "skipped (Write q x # evs) = skipped evs"
  "skipped (xs @ ys) = skipped xs @ skipped ys"
  by (simp_all add: skipped_def)

lemma single_patch_grows:
  "trace (snd (apply_single_patch E self p s))
     = trace s @ events_of (apply_single_patch E self p) s"
  by (simp add: patch_step_defs case_prod_beta split: proc.splits)

lemma single_patch_git_applies:
  "git_applies (events_of (apply_single_patch E self p) s) = [ungoogled_git_apply_cmd p]"
  by (simp add: patch_step_defs case_prod_beta split: proc.splits)

lemma single_patch_skipped:
  "skipped (events_of (apply_single_patch E self p) s) = []"
  by (simp add: patch_step_defs case_prod_beta split: proc.splits)

lemma events_of_eq: "trace (snd (f s)) = trace s @ evs \<Longrightarrow> events_of f s = evs"
  by (simp add: events_of_def)

lemma events_of_two:
  "trace s' = trace s @ a \<Longrightarrow> trace (snd (f s)) = trace s' @ b \<Longrightarrow> events_of f s = a @ b"
  by (simp add: events_of_def)

lemma patch_loop_skip:
  "\<not> exists_fs (fs s) (joinpath dir pf) \<Longrightarrow>
     patch_loop E self dir (pf # rest) c s
       = patch_loop E self dir rest c (log WARNING (''Patch file not found: '' @ pf) s)"
  by simp

lemma patch_loop_applied:
  "exists_fs (fs s) (joinpath dir pf) \<Longrightarrow> fst (apply_single_patch E self (joinpath dir pf) s) \<Longrightarrow>
     patch_loop E self dir (pf # rest) c s
       = patch_loop E self dir rest (c + 1) (snd (apply_single_patch E self (joinpath dir pf) s))"
  by (simp add: case_prod_beta)

lemma patch_loop_failed:
  "exists_fs (fs s) (joinpath dir pf) \<Longrightarrow>
   \<not> fst (apply_single_patch E self (joinpath dir pf) s) \<Longrightarrow>
     patch_loop E self dir (pf # rest) c s
       = (None, log ERROR (''Failed to apply patch: '' @ pf)
                  (snd (apply_single_patch E self (joinpath dir pf) s)))"
  by (simp add: case_prod_beta)

lemma patch_loop_grows:
  "trace (snd (patch_loop E self dir pfs c s))
     = trace s @ events_of (patch_loop E self dir pfs c) s"
proof (rule grows_events_of, induction pfs arbitrary: c s)
  case Nil
  show ?case by simp
next
  case (Cons pf rest)
  let ?p = "joinpath dir pf"
  show ?case
  proof (cases "exists_fs (fs s) ?p")
    case False
    from Cons [of c "log WARNING (''Patch file not found: '' @ pf) s"]
    show ?thesis
      by (simp only: patch_loop_skip [OF False] trace_log append_assoc) blast
  next
    case True
    note g = single_patch_grows [of E self ?p s]
    show ?thesis
    proof (cases "fst (apply_single_patch E self ?p s)")
      case True
      from Cons [of "c + 1" "snd (apply_single_patch E self ?p s)"]
      show ?thesis
        by (simp only: patch_loop_applied [OF \<open>exists_fs (fs s) ?p\<close> True] g append_assoc) blast
    next
      case False
      show ?thesis
        by (simp only: patch_loop_failed [OF \<open>exists_fs (fs s) ?p\<close> False] snd_conv
              trace_log g append_assoc) blast
    qed
  qed
qed

lemma patch_loop_events_skip:
  assumes "\<not> exists_fs (fs s) (joinpath dir pf)"
  shows "events_of (patch_loop E self dir (pf # rest) c) s
     = Log WARNING (''Patch file not found: '' @ pf)
       # events_of (patch_loop E self dir rest c) (log WARNING (''Patch file not found: '' @ pf) s)"
proof -
  let ?s = "log WARNING (''Patch file not found: '' @ pf) s"
  have "events_of (patch_loop E self dir (pf # rest) c) s
      = [Log WARNING (''Patch file not found: '' @ pf)] @ events_of (patch_loop E self dir rest c) ?s"
    by (rule events_of_two [where s' = ?s])
       (simp_all only: patch_loop_skip [OF assms] trace_log patch_loop_grows [of E self dir rest c ?s])
  then show ?thesis by simp
qed

lemma patch_loop_events_applied:
  assumes "exists_fs (fs s) (joinpath dir pf)"
    and "fst (apply_single_patch E self (joinpath dir pf) s)"
  shows "events_of (patch_loop E self dir (pf # rest) c) s
     = events_of (apply_single_patch E self (joinpath dir pf)) s
       @ events_of (patch_loop E self dir rest (c + 1))
           (snd (apply_single_patch E self (joinpath dir pf) s))"
  by (rule events_of_two [where s' = "snd (apply_single_patch E self (joinpath dir pf) s)"])
     (simp_all only: patch_loop_applied [OF assms] single_patch_grows
        patch_loop_grows [of E self dir rest "c + 1" "snd (apply_single_patch E self (joinpath dir pf) s)"])

lemma patch_loop_events_failed:
  assumes "exists_fs (fs s) (joinpath dir pf)"
    and "\<not> fst (apply_single_patch E self (joinpath dir pf) s)"
  shows "events_of (patch_loop E self dir (pf # rest) c) s
     = events_of (apply_single_patch E self (joinpath dir pf)) s
       @ [Log ERROR (''Failed to apply patch: '' @ pf)]"
  by (rule events_of_two [where s' = "snd (apply_single_patch E self (joinpath dir pf) s)"])
     (simp_all only: patch_loop_failed [OF assms] single_patch_grows snd_conv trace_log)


lemma patch_loop_append:
  "patch_loop E self dir pre c s = (Some c1, s1) \<Longrightarrow>
     patch_loop E self dir (pre @ rest) c s = patch_loop E self dir rest c1 s1"
proof (induction pre arbitrary: c s)
  case Nil
  then show ?case by simp
next
  case (Cons pf pre)
  let ?p = "joinpath dir pf"
  show ?case
  proof (cases "exists_fs (fs s) ?p")
    case False
    with Cons show ?thesis by simp
  next
    case True
    show ?thesis
    proof (cases "fst (apply_single_patch E self ?p s)")
      case True
      from Cons.prems have "patch_loop E self dir pre (c + 1)
          (snd (apply_single_patch E self ?p s)) = (Some c1, s1)"
        by (simp only: patch_loop_applied [OF \<open>exists_fs (fs s) ?p\<close> True])
      from Cons.IH [OF this] show ?thesis
        by (simp only: append_Cons patch_loop_applied [OF \<open>exists_fs (fs s) ?p\<close> True])
    next
      case False
      from Cons.prems show ?thesis
        by (simp only: patch_loop_failed [OF \<open>exists_fs (fs s) ?p\<close> False]) simp
    qed
  qed
qed

lemma patch_loop_events_append:
  assumes "patch_loop E self dir pre c s = (Some c1, s1)"
  shows "events_of (patch_loop E self dir (pre @ rest) c) s
     = events_of (patch_loop E self dir pre c) s @ events_of (patch_loop E self dir rest c1) s1"
proof (rule events_of_two [where s' = s1])
  from patch_loop_grows [of E self dir pre c s] assms
  show "trace s1 = trace s @ events_of (patch_loop E self dir pre c) s" by simp
  show "trace (snd (patch_loop E self dir (pre @ rest) c s))
      = trace s1 @ events_of (patch_loop E self dir rest c1) s1"
    by (simp only: patch_loop_append [OF assms] patch_loop_grows [of E self dir rest c1 s1])
qed

lemma patch_loop_counts:
  "patch_loop E self dir pfs c s = (Some n, s') \<Longrightarrow>
     length (git_applies (events_of (patch_loop E self dir pfs c) s))
       + length (skipped (events_of (patch_loop E self dir pfs c) s)) = length pfs
     \<and> n = c + length (git_applies (events_of (patch_loop E self dir pfs c) s))"
proof (induction pfs arbitrary: c s)
  case Nil
  then show ?case by (simp add: events_of_def)
next
  case (Cons pf rest)
  let ?p = "joinpath dir pf"
  show ?case
  proof (cases "exists_fs (fs s) ?p")
    case False
    let ?s = "log WARNING (''Patch file not found: '' @ pf) s"
    from Cons.prems have "patch_loop E self dir rest c ?s = (Some n, s')"
      by (simp only: patch_loop_skip [OF False])
    from Cons.IH [OF this] show ?thesis
      by (simp add: patch_loop_events_skip [OF False] startswith_def del: patch_loop.simps)
  next
    case True
    show ?thesis
    proof (cases "fst (apply_single_patch E self ?p s)")
      case True
      from Cons.prems have "patch_loop E self dir rest (c + 1)
          (snd (apply_single_patch E self ?p s)) = (Some n, s')"
        by (simp only: patch_loop_applied [OF \<open>exists_fs (fs s) ?p\<close> True])
      from Cons.IH [OF this] show ?thesis
        by (simp add: patch_loop_events_applied [OF \<open>exists_fs (fs s) ?p\<close> True]
              single_patch_git_applies single_patch_skipped del: patch_loop.simps)
    next
      case False
      from Cons.prems show ?thesis
        by (simp only: patch_loop_failed [OF \<open>exists_fs (fs s) ?p\<close> False]) simp
    qed
  qed
qed


lemma apply_patch_series_run:
  assumes "series_patch_files E dir s0 = Inr pfs"
  shows "apply_patch_series E self dir nm s0 =
     (case patch_loop E self dir pfs 0
             (log INFO (''Found '' @ str_nat (length pfs) @ '' patches in '' @ nm @ '' series'') s0) of
        (None, s2) \<Rightarrow> (Inr False, s2)
      | (Some n, s2) \<Rightarrow>
          (Inr (n = length pfs),
           log INFO (''Successfully applied '' @ str_nat n @ ''/'' @ str_nat (length pfs)
                     @ '' patches from '' @ nm) s2))"
  by (simp add: apply_patch_series_def assms Let_def)

lemma apply_patch_series_events:
  assumes "series_patch_files E dir s0 = Inr pfs"
    and "s1 = log INFO (''Found '' @ str_nat (length pfs) @ '' patches in '' @ nm @ '' series'') s0"
  shows "events_of (apply_patch_series E self dir nm) s0 =
     Log INFO (''Found '' @ str_nat (length pfs) @ '' patches in '' @ nm @ '' series'')
     # events_of (patch_loop E self dir pfs 0) s1
     @ (case fst (patch_loop E self dir pfs 0 s1) of
          None \<Rightarrow> []
        | Some n \<Rightarrow> [Log INFO (''Successfully applied '' @ str_nat n @ ''/''
                       @ str_nat (length pfs) @ '' patches from '' @ nm)])"
proof (rule events_of_eq)
  have g: "trace (snd (patch_loop E self dir pfs 0 s1))
      = trace s0 @ Log INFO (''Found '' @ str_nat (length pfs) @ '' patches in '' @ nm @ '' series'')
        # events_of (patch_loop E self dir pfs 0) s1"
    using patch_loop_grows [of E self dir pfs 0 s1] assms(2) by simp
  have r: "apply_patch_series E self dir nm s0 =
     (case patch_loop E self dir pfs 0 s1 of
        (None, s2) \<Rightarrow> (Inr False, s2)
      | (Some n, s2) \<Rightarrow>
          (Inr (n = length pfs),
           log INFO (''Successfully applied '' @ str_nat n @ ''/'' @ str_nat (length pfs)
                     @ '' patches from '' @ nm) s2))"
    by (simp only: apply_patch_series_run [OF assms(1)] assms(2))
  show "trace (snd (apply_patch_series E self dir nm s0)) =
     trace s0 @
     Log INFO (''Found '' @ str_nat (length pfs) @ '' patches in '' @ nm @ '' series'')
     # events_of (patch_loop E self dir pfs 0) s1
     @ (case fst (patch_loop E self dir pfs 0 s1) of
          None \<Rightarrow> []
        | Some n \<Rightarrow> [Log INFO (''Successfully applied '' @ str_nat n @ ''/''
                       @ str_nat (length pfs) @ '' patches from '' @ nm)])"
    using g by (simp add: r case_prod_beta split: option.splits)
qed

text \<open>
  C1 (as amended). When the steps before a listed patch run without a failure and that
  patch exists and fails, \<open>_apply_patch_series\<close> returns at once with \<open>False\<close>:
  the state it leaves is the one after the failing step and its error message, the
  steps attempted are those of the earlier part of the list followed by the failing
  one, and their number is the index of the failing patch plus one, less the number of
  listed files that were skipped as missing.
\<close>

theorem series_aborts_at_first_failure:
  assumes "series_patch_files E dir s0 = Inr (pre @ p # post)"
    and "s1 = log INFO (''Found '' @ str_nat (length (pre @ p # post)) @ '' patches in '' @ nm
                        @ '' series'') s0"
    and "patch_loop E self dir pre 0 s1 = (Some n, s2)"
    and "exists_fs (fs s2) (joinpath dir p)"
    and "\<not> fst (apply_single_patch E self (joinpath dir p) s2)"
  shows "apply_patch_series E self dir nm s0
           = (Inr False, log ERROR (''Failed to apply patch: '' @ p)
                           (snd (apply_single_patch E self (joinpath dir p) s2)))
     \<and> git_applies (events_of (apply_patch_series E self dir nm) s0)
         = git_applies (events_of (patch_loop E self dir pre 0) s1)
           @ [ungoogled_git_apply_cmd (joinpath dir p)]
     \<and> length (git_applies (events_of (apply_patch_series E self dir nm) s0))
         + length (skipped (events_of (apply_patch_series E self dir nm) s0))
         = length pre + 1"
proof -
  let ?pfs = "pre @ p # post"
  have loop: "patch_loop E self dir ?pfs 0 s1
      = (None, log ERROR (''Failed to apply patch: '' @ p)
                 (snd (apply_single_patch E self (joinpath dir p) s2)))"
    by (simp only: patch_loop_append [OF assms(3)] patch_loop_failed [OF assms(4,5)])
  have ev: "events_of (patch_loop E self dir ?pfs 0) s1
      = events_of (patch_loop E self dir pre 0) s1
        @ events_of (apply_single_patch E self (joinpath dir p)) s2
        @ [Log ERROR (''Failed to apply patch: '' @ p)]"
    by (simp only: patch_loop_events_append [OF assms(3)] patch_loop_events_failed [OF assms(4,5)])
  have all: "events_of (apply_patch_series E self dir nm) s0
      = Log INFO (''Found '' @ str_nat (length ?pfs) @ '' patches in '' @ nm @ '' series'')
        # events_of (patch_loop E self dir pre 0) s1
        @ events_of (apply_single_patch E self (joinpath dir p)) s2
        @ [Log ERROR (''Failed to apply patch: '' @ p)]"
    by (simp only: apply_patch_series_events [OF assms(1,2)] loop ev) simp
  have result: "apply_patch_series E self dir nm s0
      = (Inr False, log ERROR (''Failed to apply patch: '' @ p)
                     (snd (apply_single_patch E self (joinpath dir p) s2)))"
    by (simp only: apply_patch_series_run [OF assms(1)] assms(2) [symmetric] loop) simp
  have attempts: "git_applies (events_of (apply_patch_series E self dir nm) s0)
      = git_applies (events_of (patch_loop E self dir pre 0) s1)
        @ [ungoogled_git_apply_cmd (joinpath dir p)]"
    by (simp add: all single_patch_git_applies)
  have skips: "skipped (events_of (apply_patch_series E self dir nm) s0)
      = skipped (events_of (patch_loop E self dir pre 0) s1)"
    by (simp add: all single_patch_skipped)
  from patch_loop_counts [OF assms(3)]
  have "length (git_applies (events_of (patch_loop E self dir pre 0) s1))
      + length (skipped (events_of (patch_loop E self dir pre 0) s1)) = length pre"
    by simp
  with result attempts skips show ?thesis by simp
qed


theorem series_aborts_at_first_failure_witness:
  "series_patch_files (world (rejecting ''ungoogled/patches/core/b.patch'')) core_dir
       (start (series_tree [''a.patch'', ''b.patch'', ''c.patch'']
                 [''a.patch'', ''b.patch'', ''c.patch'']))
     = Inr ([''a.patch''] @ ''b.patch'' # [''c.patch''])
   \<and> fst (apply_patch_series (world (rejecting ''ungoogled/patches/core/b.patch''))
            example_patcher core_dir ''core''
            (start (series_tree [''a.patch'', ''b.patch'', ''c.patch'']
                      [''a.patch'', ''b.patch'', ''c.patch''])))
       = Inr False
   \<and> length (git_applies (events_of
         (apply_patch_series (world (rejecting ''ungoogled/patches/core/b.patch''))
            example_patcher core_dir ''core'')
         (start (series_tree [''a.patch'', ''b.patch'', ''c.patch'']
                   [''a.patch'', ''b.patch'', ''c.patch'']))))
       + length (skipped (events_of
         (apply_patch_series (world (rejecting ''ungoogled/patches/core/b.patch''))
            example_patcher core_dir ''core'')
         (start (series_tree [''a.patch'', ''b.patch'', ''c.patch'']
                   [''a.patch'', ''b.patch'', ''c.patch'']))))
       = 2"
proof -
  let ?E = "world (rejecting ''ungoogled/patches/core/b.patch'')"
  let ?s0 = "start (series_tree [''a.patch'', ''b.patch'', ''c.patch'']
                      [''a.patch'', ''b.patch'', ''c.patch''])"
  let ?s1 = "log INFO (''Found '' @ str_nat (length ([''a.patch''] @ ''b.patch'' # [''c.patch'']))
                       @ '' patches in '' @ ''core'' @ '' series'') ?s0"
  let ?s2 = "snd (patch_loop ?E example_patcher core_dir [''a.patch''] 0 ?s1)"
  have h1: "series_patch_files ?E core_dir ?s0 = Inr ([''a.patch''] @ ''b.patch'' # [''c.patch''])"
    by code_simp
  have "fst (patch_loop ?E example_patcher core_dir [''a.patch''] 0 ?s1) = Some 1"
    by code_simp
  then have h3: "patch_loop ?E example_patcher core_dir [''a.patch''] 0 ?s1 = (Some 1, ?s2)"
    by (simp add: prod_eq_iff del: patch_loop.simps)
  have h4: "exists_fs (fs ?s2) (joinpath core_dir ''b.patch'')"
    by code_simp
  have h5: "\<not> fst (apply_single_patch ?E example_patcher (joinpath core_dir ''b.patch'') ?s2)"
    by code_simp
  note t = series_aborts_at_first_failure [OF h1 refl h3 h4 h5]
  from conjunct1 [OF t]
  have a: "fst (apply_patch_series ?E example_patcher core_dir ''core'' ?s0) = Inr False"
    by (simp only: fst_conv)
  have "length [''a.patch''] + 1 = (2::nat)"
    by simp
  with conjunct2 [OF conjunct2 [OF t]]
  have b: "length (git_applies (events_of
         (apply_patch_series ?E example_patcher core_dir ''core'') ?s0))
       + length (skipped (events_of
         (apply_patch_series ?E example_patcher core_dir ''core'') ?s0)) = 2"
    by (simp only:)
  from h1 a b show ?thesis by blast
qed

text \<open>
  In the run below the third listed patch is the first to fail, the first listed file is
  missing, and two steps are attempted, not three.
\<close>

theorem series_aborts_at_first_failure_counterexample:
  "series_patch_files (world (rejecting ''ungoogled/patches/core/b.patch'')) core_dir
       (start (series_tree [''missing.patch'', ''a.patch'', ''b.patch'']
                 [''a.patch'', ''b.patch'']))
     = Inr [''missing.patch'', ''a.patch'', ''b.patch'']
   \<and> fst (apply_patch_series (world (rejecting ''ungoogled/patches/core/b.patch''))
            example_patcher core_dir ''core''
            (start (series_tree [''missing.patch'', ''a.patch'', ''b.patch'']
                      [''a.patch'', ''b.patch''])))
       = Inr False
   \<and> git_applies (events_of
         (apply_patch_series (world (rejecting ''ungoogled/patches/core/b.patch''))
            example_patcher core_dir ''core'')
         (start (series_tree [''missing.patch'', ''a.patch'', ''b.patch'']
                   [''a.patch'', ''b.patch''])))
       = [ungoogled_git_apply_cmd (core_dir @ [''a.patch'']),
          ungoogled_git_apply_cmd (core_dir @ [''b.patch''])]
   \<and> fst (apply_single_patch (world (rejecting ''ungoogled/patches/core/b.patch''))
            example_patcher (core_dir @ [''a.patch''])
            (start (series_tree [''missing.patch'', ''a.patch'', ''b.patch'']
                      [''a.patch'', ''b.patch''])))
   \<and> \<not> fst (apply_single_patch (world (rejecting ''ungoogled/patches/core/b.patch''))
              example_patcher (core_dir @ [''b.patch''])
              (start (series_tree [''missing.patch'', ''a.patch'', ''b.patch'']
                        [''a.patch'', ''b.patch''])))"
  by code_simp




section \<open>The patch groups of the optimizer\<close>

lemma applied_simps [simp]:
  "applied [] = []"
  "applied (e # evs) = (if applied_mark e then e # applied evs else applied evs)"
  "applied (xs @ ys) = applied xs @ applied ys"
  by (simp_all add: applied_def)

lemma applied_mark_simps [simp]:
  "applied_mark (Exec c) = False"
  "applied_mark (Write q x) = False"
  "applied_mark (Log ERROR m) = False"
  "applied_mark (Log INFO m) = False"
  "applied_mark (Log DEBUG m)
     = (startswith m ''Successfully applied: '' \<or> startswith m ''Fallback patch successful: '')"
  "applied_mark (Log WARNING m) = startswith m ''Partial patch success: ''"
  by (simp_all add: applied_mark_def)

lemma apply_patch_grows:
  "trace (snd (apply_patch E self p s)) = trace s @ events_of (apply_patch E self p) s"
  by (simp add: patch_step_defs case_prod_beta split: proc.splits)

lemma apply_patch_git_applies:
  "git_applies (events_of (apply_patch E self p) s) = [clang_git_apply_cmd p]"
  by (simp add: patch_step_defs case_prod_beta split: proc.splits)


lemma group_loop_applied:
  "fst (apply_patch E self p s) \<Longrightarrow>
     group_loop E self failed (p # rest) c s
       = group_loop E self failed rest (c + 1) (snd (apply_patch E self p s))"
  by (simp add: case_prod_beta)

lemma group_loop_failed:
  "\<not> fst (apply_patch E self p s) \<Longrightarrow>
     group_loop E self failed (p # rest) c s
       = group_loop E self failed rest c
           (log WARNING (failed @ name p) (snd (apply_patch E self p s)))"
  by (simp add: case_prod_beta)

lemma group_loop_grows:
  "trace (snd (group_loop E self failed ps c s))
     = trace s @ events_of (group_loop E self failed ps c) s"
proof (rule grows_events_of, induction ps arbitrary: c s)
  case Nil
  show ?case by simp
next
  case (Cons p rest)
  note g = apply_patch_grows [of E self p s]
  show ?case
  proof (cases "fst (apply_patch E self p s)")
    case True
    from Cons [of "c + 1" "snd (apply_patch E self p s)"]
    show ?thesis
      by (simp only: group_loop_applied [OF True] g append_assoc) blast
  next
    case False
    from Cons [of c "log WARNING (failed @ name p) (snd (apply_patch E self p s))"]
    show ?thesis
      by (simp only: group_loop_failed [OF False] trace_log g append_assoc) blast
  qed
qed

lemma group_loop_events_applied:
  assumes "fst (apply_patch E self p s)"
  shows "events_of (group_loop E self failed (p # rest) c) s
     = events_of (apply_patch E self p) s
       @ events_of (group_loop E self failed rest (c + 1)) (snd (apply_patch E self p s))"
  by (rule events_of_two [where s' = "snd (apply_patch E self p s)"])
     (simp_all only: group_loop_applied [OF assms] apply_patch_grows
        group_loop_grows [of E self failed rest "c + 1" "snd (apply_patch E self p s)"])

lemma group_loop_events_failed:
  assumes "\<not> fst (apply_patch E self p s)"
  shows "events_of (group_loop E self failed (p # rest) c) s
     = (events_of (apply_patch E self p) s @ [Log WARNING (failed @ name p)])
       @ events_of (group_loop E self failed rest c)
           (log WARNING (failed @ name p) (snd (apply_patch E self p s)))"
  by (rule events_of_two
        [where s' = "log WARNING (failed @ name p) (snd (apply_patch E self p s))"])
     (simp_all only: group_loop_failed [OF assms] apply_patch_grows trace_log append_assoc
        group_loop_grows [of E self failed rest c
          "log WARNING (failed @ name p) (snd (apply_patch E self p s))"])

lemma group_loop_git_applies:
  "git_applies (events_of (group_loop E self failed ps c) s) = map clang_git_apply_cmd ps"
proof (induction ps arbitrary: c s)
  case Nil
  show ?case by (simp add: events_of_def)
next
  case (Cons p rest)
  show ?case
  proof (cases "fst (apply_patch E self p s)")
    case True
    show ?thesis
      by (simp add: group_loop_events_applied [OF True] apply_patch_git_applies Cons
            del: group_loop.simps)
  next
    case False
    show ?thesis
      by (simp add: group_loop_events_failed [OF False] apply_patch_git_applies Cons
            del: group_loop.simps)
  qed
qed














section \<open>The verdict of a pipeline\<close>

lemma length_record_step:
  "length (record_step b label steps) = length steps + (if b then 1 else 0)"
  by (simp add: record_step_def)

lemma ungoogled_verdict:
  assumes "apply_core_patches E self
             (log INFO ''Starting complete ungoogled-chromium patch application...'' s0)
           = (Inr r1, s2)"
    and "apply_extra_patches E self s2 = (Inr r2, s3)"
    and "apply_inox_patches E self s3 = (Inr r3, s4)"
    and "apply_domain_substitution E self s4 = (r4, s5)"
    and "apply_pruning E self s5 = (r5, s6)"
    and "apply_build_flags E self s6 = (r6, s7)"
    and "verify_patches E self s7 = (r7, s8)"
  shows "fst (ungoogled_run_all E self s0)
           = Inr (5 \<le> length (filter id [r1, r2, r3, r4, r5, r6, r7]))"
  by (simp add: ungoogled_run_all_def Let_def assms length_record_step)

lemma clang_verdict:
  assumes "apply_v8_optimizations E self
             (log INFO ''Starting complete Clang optimization application...'' s0)
           = (r1, s2)"
    and "apply_windows_optimizations E self s2 = (r2, s3)"
    and "apply_linux_optimizations E self s3 = (r3, s4)"
    and "configure_build_args E self s4 = (r4, s5)"
    and "setup_custom_toolchain E self s5 = (r5, s6)"
    and "verify_optimizations E self s6 = (r6, s7)"
  shows "fst (clang_run_all E self s0) = (4 \<le> length (filter id [r1, r2, r3, r4, r5, r6]))"
  by (simp add: clang_run_all_def Let_def assms length_record_step)

lemma ungoogled_exit_status:
  "(fst (ungoogled_main E ud cd s) = 0 \<longleftrightarrow>
      (\<exists>patcher s1. ungoogled_init E ud cd s = (Inr patcher, s1)
         \<and> fst (ungoogled_run_all E patcher s1) = Inr True))
   \<and> (fst (ungoogled_main E ud cd s) \<noteq> 0 \<longleftrightarrow> fst (ungoogled_main E ud cd s) = 1)"
proof -
  have init: "\<And>code s1. ungoogled_init E ud cd s = (Inl code, s1) \<Longrightarrow> code = 1"
  proof -
    fix code s1
    assume a: "ungoogled_init E ud cd s = (Inl code, s1)"
    have req: "\<And>self fs' s' c t. required_loop self fs' s' = (Inl c, t) \<Longrightarrow> c = 1"
    proof -
      fix self fs' s' c t
      show "required_loop self fs' s' = (Inl c, t) \<Longrightarrow> c = 1"
        by (induction fs' arbitrary: s') (auto split: if_splits)
    qed
    from a show "code = 1"
      by (auto simp: ungoogled_init_def ungoogled_validate_directories_def Let_def
          split: prod.splits sum.splits if_splits option.splits dest: req)
  qed
  show ?thesis
    by (cases "ungoogled_init E ud cd s"; cases "fst (ungoogled_init E ud cd s)")
       (auto simp: ungoogled_main_def split: prod.splits sum.splits dest: init)
qed

lemma clang_exit_status:
  "(fst (clang_main E cl cd arch s) = 0 \<longleftrightarrow>
      (\<exists>u s1. clang_validate_directories
                 \<lparr>chromium_dir = cd, clang_dir = cl, target_arch = arch\<rparr> s = (Inr u, s1)
         \<and> fst (clang_run_all E \<lparr>chromium_dir = cd, clang_dir = cl, target_arch = arch\<rparr> s1)))
   \<and> (fst (clang_main E cl cd arch s) \<noteq> 0 \<longleftrightarrow> fst (clang_main E cl cd arch s) = 1)"
  by (auto simp: clang_main_def clang_validate_directories_def Let_def
      split: prod.splits sum.splits if_splits)


text \<open>
  C3. With the results of the seven phases of the patcher as they run one after the
  other, \<open>run_all\<close> returns whether at least five of them passed; with the results of
  the six phases of the optimizer, whether at least four passed. The exit status of
  either process is 0 exactly when the constructor accepts the directories and
  \<open>run_all\<close> returns \<open>True\<close>, and 1 otherwise.
\<close>

theorem pipeline_verdict:
  "(apply_core_patches E self
        (log INFO ''Starting complete ungoogled-chromium patch application...'' s0)
      = (Inr r1, s2)
    \<and> apply_extra_patches E self s2 = (Inr r2, s3)
    \<and> apply_inox_patches E self s3 = (Inr r3, s4)
    \<and> apply_domain_substitution E self s4 = (r4, s5)
    \<and> apply_pruning E self s5 = (r5, s6)
    \<and> apply_build_flags E self s6 = (r6, s7)
    \<and> verify_patches E self s7 = (r7, s8)
    \<longrightarrow> fst (ungoogled_run_all E self s0)
          = Inr (5 \<le> length (filter id [r1, r2, r3, r4, r5, r6, r7])))
   \<and> (fst (ungoogled_main E ud cd s) = 0 \<longleftrightarrow>
        (\<exists>patcher s1. ungoogled_init E ud cd s = (Inr patcher, s1)
           \<and> fst (ungoogled_run_all E patcher s1) = Inr True))
   \<and> (fst (ungoogled_main E ud cd s) \<noteq> 0 \<longleftrightarrow> fst (ungoogled_main E ud cd s) = 1)
   \<and> (apply_v8_optimizations E optimizer
        (log INFO ''Starting complete Clang optimization application...'' t0)
      = (q1, t2)
    \<and> apply_windows_optimizations E optimizer t2 = (q2, t3)
    \<and> apply_linux_optimizations E optimizer t3 = (q3, t4)
    \<and> configure_build_args E optimizer t4 = (q4, t5)
    \<and> setup_custom_toolchain E optimizer t5 = (q5, t6)
    \<and> verify_optimizations E optimizer t6 = (q6, t7)
    \<longrightarrow> fst (clang_run_all E optimizer t0)
          = (4 \<le> length (filter id [q1, q2, q3, q4, q5, q6])))
   \<and> (fst (clang_main E cl cd arch s) = 0 \<longleftrightarrow>
        (\<exists>u s1. clang_validate_directories
                   \<lparr>chromium_dir = cd, clang_dir = cl, target_arch = arch\<rparr> s = (Inr u, s1)
           \<and> fst (clang_run_all E \<lparr>chromium_dir = cd, clang_dir = cl, target_arch = arch\<rparr>
                  s1)))
   \<and> (fst (clang_main E cl cd arch s) \<noteq> 0 \<longleftrightarrow> fst (clang_main E cl cd arch s) = 1)"
  using ungoogled_verdict [of E self s0 r1 s2 r2 s3 r3 s4 r4 s5 r5 s6 r6 s7 r7 s8]
    clang_verdict [of E optimizer t0 q1 t2 q2 t3 q3 t4 q4 t5 q5 t6 q6 t7]
    ungoogled_exit_status [of E ud cd s] clang_exit_status [of E cl cd arch s]
  by blast


text \<open>
  The run of the scenario: the three patch phases, pruning and the build flags pass,
  substitution and verification fail, and the process exits with status 0. In the run
  of the optimizer the three patch groups and the toolchain setup pass, the build
  arguments and verification fail, and the process exits with status 0.
\<close>

theorem pipeline_verdict_witness:
  "fst (apply_domain_substitution import_fails example_patcher
          (snd (apply_inox_patches import_fails example_patcher
            (snd (apply_extra_patches import_fails example_patcher
              (snd (apply_core_patches import_fails example_patcher
                (log INFO ''Starting complete ungoogled-chromium patch application...''
                   (start (pipeline_tree (File ''a.patch'')))))))))))
     = False
   \<and> fst (ungoogled_run_all import_fails example_patcher
            (start (pipeline_tree (File ''a.patch'')))) = Inr True
   \<and> fst (ungoogled_main import_fails [''ungoogled''] [''src'']
            (start (pipeline_tree (File ''a.patch'')))) = 0
   \<and> fst (clang_run_all (world (rejecting ''clang/V8/one.patch'')) example_optimizer
            (start blocked_tree))
   \<and> fst (clang_main (world (rejecting ''clang/V8/one.patch'')) [''clang''] [''src'']
            ''avx512'' (start blocked_tree)) = 0"
proof -
  let ?E = import_fails
  let ?P = example_patcher
  let ?s0 = "start (pipeline_tree (File ''a.patch''))"
  let ?s1 = "log INFO ''Starting complete ungoogled-chromium patch application...'' ?s0"
  let ?p1 = "apply_core_patches ?E ?P ?s1"
  let ?p2 = "apply_extra_patches ?E ?P (snd ?p1)"
  let ?p3 = "apply_inox_patches ?E ?P (snd ?p2)"
  let ?p4 = "apply_domain_substitution ?E ?P (snd ?p3)"
  let ?p5 = "apply_pruning ?E ?P (snd ?p4)"
  let ?p6 = "apply_build_flags ?E ?P (snd ?p5)"
  let ?p7 = "verify_patches ?E ?P (snd ?p6)"
  have "fst ?p1 = Inr True" by code_simp
  then have e1: "?p1 = (Inr True, snd ?p1)" by (simp only: prod_eq_iff fst_conv snd_conv)
  have "fst ?p2 = Inr True" by code_simp
  then have e2: "?p2 = (Inr True, snd ?p2)" by (simp only: prod_eq_iff fst_conv snd_conv)
  have "fst ?p3 = Inr True" by code_simp
  then have e3: "?p3 = (Inr True, snd ?p3)" by (simp only: prod_eq_iff fst_conv snd_conv)
  have f4: "fst ?p4 = False" by code_simp
  then have e4: "?p4 = (False, snd ?p4)" by (simp only: prod_eq_iff fst_conv snd_conv)
  have "fst ?p5 = True" by code_simp
  then have e5: "?p5 = (True, snd ?p5)" by (simp only: prod_eq_iff fst_conv snd_conv)
  have "fst ?p6 = True" by code_simp
  then have e6: "?p6 = (True, snd ?p6)" by (simp only: prod_eq_iff fst_conv snd_conv)
  have "fst ?p7 = False" by code_simp
  then have e7: "?p7 = (False, snd ?p7)" by (simp only: prod_eq_iff fst_conv snd_conv)
  let ?O = example_optimizer
  let ?W = "world (rejecting ''clang/V8/one.patch'')"
  let ?t0 = "start blocked_tree"
  let ?t1 = "log INFO ''Starting complete Clang optimization application...'' ?t0"
  let ?q1 = "apply_v8_optimizations ?W ?O ?t1"
  let ?q2 = "apply_windows_optimizations ?W ?O (snd ?q1)"
  let ?q3 = "apply_linux_optimizations ?W ?O (snd ?q2)"
  let ?q4 = "configure_build_args ?W ?O (snd ?q3)"
  let ?q5 = "setup_custom_toolchain ?W ?O (snd ?q4)"
  let ?q6 = "verify_optimizations ?W ?O (snd ?q5)"
  have "fst ?q1 = True" by code_simp
  then have c1: "?q1 = (True, snd ?q1)" by (simp only: prod_eq_iff fst_conv snd_conv)
  have "fst ?q2 = True" by code_simp
  then have c2: "?q2 = (True, snd ?q2)" by (simp only: prod_eq_iff fst_conv snd_conv)
  have "fst ?q3 = True" by code_simp
  then have c3: "?q3 = (True, snd ?q3)" by (simp only: prod_eq_iff fst_conv snd_conv)
  have "fst ?q4 = False" by code_simp
  then have c4: "?q4 = (False, snd ?q4)" by (simp only: prod_eq_iff fst_conv snd_conv)
  have "fst ?q5 = True" by code_simp
  then have c5: "?q5 = (True, snd ?q5)" by (simp only: prod_eq_iff fst_conv snd_conv)
  have "fst ?q6 = False" by code_simp
  then have c6: "?q6 = (False, snd ?q6)" by (simp only: prod_eq_iff fst_conv snd_conv)
  note t = pipeline_verdict [where E = ?E and self = ?P and ?s0.0 = ?s0
      and ?r1.0 = True and ?s2.0 = "snd ?p1" and ?r2.0 = True and ?s3.0 = "snd ?p2"
      and ?r3.0 = True and ?s4.0 = "snd ?p3" and ?r4.0 = False and ?s5.0 = "snd ?p4"
      and ?r5.0 = True and ?s6.0 = "snd ?p5" and ?r6.0 = True and ?s7.0 = "snd ?p6"
      and ?r7.0 = False and ?s8.0 = "snd ?p7"
      and ud = "[''ungoogled'']" and cd = "[''src'']" and s = ?s0]
  from conjunct1 [OF t] e1 e2 e3 e4 e5 e6 e7
  have "fst (ungoogled_run_all ?E ?P ?s0)
      = Inr (5 \<le> length (filter id [True, True, True, False, True, True, False]))"
    by blast
  then have run: "fst (ungoogled_run_all ?E ?P ?s0) = Inr True"
    by simp
  have "fst (ungoogled_init ?E [''ungoogled''] [''src''] ?s0) = Inr ?P"
    by code_simp
  moreover have "snd (ungoogled_init ?E [''ungoogled''] [''src''] ?s0) = ?s0"
    by code_simp
  ultimately have init: "ungoogled_init ?E [''ungoogled''] [''src''] ?s0 = (Inr ?P, ?s0)"
    by (simp only: prod_eq_iff fst_conv snd_conv)
  from conjunct1 [OF conjunct2 [OF t]] init run
  have exit: "fst (ungoogled_main ?E [''ungoogled''] [''src''] ?s0) = 0"
    by blast
  note u = pipeline_verdict [where E = ?W and optimizer = ?O and ?t0.0 = ?t0
      and ?q1.0 = True and ?t2.0 = "snd ?q1" and ?q2.0 = True and ?t3.0 = "snd ?q2"
      and ?q3.0 = True and ?t4.0 = "snd ?q3" and ?q4.0 = False and ?t5.0 = "snd ?q4"
      and ?q5.0 = True and ?t6.0 = "snd ?q5" and ?q6.0 = False and ?t7.0 = "snd ?q6"
      and cl = "[''clang'']" and cd = "[''src'']" and arch = "''avx512''" and s = ?t0]
  from conjunct1 [OF conjunct2 [OF conjunct2 [OF conjunct2 [OF u]]]] c1 c2 c3 c4 c5 c6
  have "fst (clang_run_all ?W ?O ?t0)
      = (4 \<le> length (filter id [True, True, True, False, True, False]))"
    by blast
  then have crun: "fst (clang_run_all ?W ?O ?t0)"
    by simp
  have cexit: "fst (clang_main ?W [''clang''] [''src''] ''avx512'' ?t0) = 0"
    by code_simp
  from f4 run exit crun cexit show ?thesis by blast
qed


section \<open>Pruning\<close>


lemma prune_error:
  "exists_fs (fs s) (joinpath (chromium_dir self) pp) \<Longrightarrow>
   fault E OpRemove (joinpath (chromium_dir self) pp) = Some e \<Longrightarrow>
     pruning_loop E self (pp # rest) c s = (Inl e, s)"
  by (simp add: rmtree_def unlink_def Let_def)












lemma read_text_log [simp]: "read_text E p (log l m s) = read_text E p s"
  by (simp add: read_text_def split: option.splits)




section \<open>Domain substitution\<close>

text \<open>
  C7. The pair \<open>example\.com@example.invalid\<close> turns \<open>https://example.com/x\<close>
  into \<open>https://example.invalid/x\<close> and leaves the latter as it is, in every
  environment. In the scenario the first run of \<open>apply_domain_substitution\<close>
  returns \<open>True\<close>, and writes the target file once, with the new content; the second
  run, on the tree left by the first, returns \<open>True\<close>, writes nothing and leaves the
  tree as it is. For the target file \<open>_substitute_domains_in_file\<close> returns
  \<open>True\<close> in the first run and \<open>False\<close> (nothing changed) in the second.
\<close>

theorem substitution_scenario:
  "re_sub E (''example'' @ [BACKSLASH] @ ''.com'') ''example.invalid'' ''https://example.com/x''
     = Inr ''https://example.invalid/x''
   \<and> re_sub E (''example'' @ [BACKSLASH] @ ''.com'') ''example.invalid''
         ''https://example.invalid/x''
       = Inr ''https://example.invalid/x''
   \<and> fst (apply_domain_substitution (world (tool ok ok)) example_patcher
            (start substitution_tree))
   \<and> node_at (fs (snd (apply_domain_substitution (world (tool ok ok)) example_patcher
                         (start substitution_tree)))) [''src'', ''page.html'']
       = Some (File ''https://example.invalid/x'')
   \<and> events_of (apply_domain_substitution (world (tool ok ok)) example_patcher)
         (start substitution_tree)
       = [Log INFO ''Applying domain substitution...'',
          Write [''src'', ''page.html''] ''https://example.invalid/x'',
          Log DEBUG ''Updated: src/page.html'',
          Log INFO ''Domain substitution applied to 1 files'']
   \<and> fst (apply_domain_substitution (world (tool ok ok)) example_patcher
            (snd (apply_domain_substitution (world (tool ok ok)) example_patcher
                    (start substitution_tree))))
   \<and> fs (snd (apply_domain_substitution (world (tool ok ok)) example_patcher
                 (snd (apply_domain_substitution (world (tool ok ok)) example_patcher
                         (start substitution_tree)))))
       = fs (snd (apply_domain_substitution (world (tool ok ok)) example_patcher
                    (start substitution_tree)))
   \<and> events_of (apply_domain_substitution (world (tool ok ok)) example_patcher)
         (snd (apply_domain_substitution (world (tool ok ok)) example_patcher
                 (start substitution_tree)))
       = [Log INFO ''Applying domain substitution...'',
          Log INFO ''Domain substitution applied to 0 files'']
   \<and> fst (substitute_domains_in_file (world (tool ok ok)) [''src'', ''page.html'']
            [''example'' @ [BACKSLASH] @ ''.com@example.invalid''] (start substitution_tree))
   \<and> \<not> fst (substitute_domains_in_file (world (tool ok ok)) [''src'', ''page.html'']
              [''example'' @ [BACKSLASH] @ ''.com@example.invalid'']
              (snd (apply_domain_substitution (world (tool ok ok)) example_patcher
                      (start substitution_tree))))"
  by code_simp

section \<open>Exceptions inside a step\<close>

lemma ungoogled_primary_raises:
  "fst (ungoogled_primary E self p s) = Raised e \<Longrightarrow>
     \<not> fst (apply_single_patch E self p s)
     \<and> logged ERROR (events_of (apply_single_patch E self p) s)
         = [''Exception applying patch '' @ name p @ '': '' @ e]"
  by (simp add: patch_step_defs case_prod_beta split: proc.splits)

lemma ungoogled_fallback_raises:
  "exit_nonzero (fst (ungoogled_primary E self p s)) \<Longrightarrow>
   fst (ungoogled_fallback E self p s) = Raised e \<Longrightarrow>
     \<not> fst (apply_single_patch E self p s)
     \<and> last (logged ERROR (events_of (apply_single_patch E self p) s))
         = ''Fallback patch exception: '' @ e"
  by (simp add: patch_step_defs case_prod_beta split: proc.splits)

lemma clang_primary_raises:
  "fst (clang_primary E self p s) = Raised e \<Longrightarrow>
     \<not> fst (apply_patch E self p s)
     \<and> logged ERROR (events_of (apply_patch E self p) s)
         = [''Exception applying patch '' @ name p @ '': '' @ e]"
  by (simp add: patch_step_defs case_prod_beta split: proc.splits)

lemma clang_fallback_raises:
  "exit_nonzero (fst (clang_primary E self p s)) \<Longrightarrow>
   fst (clang_fallback E self p s) = Raised e \<Longrightarrow>
     \<not> fst (apply_patch E self p s)
     \<and> logged ERROR (events_of (apply_patch E self p) s) = [''Fallback patch exception: '' @ e]"
  by (simp add: patch_step_defs case_prod_beta split: proc.splits)

lemma substitution_exception:
  "read_text E f s = Inl e
   \<or> (\<exists>c. read_text E f s = Inr c \<and> regex_loop E defs c = Inl e)
   \<or> (\<exists>c c'. read_text E f s = Inr c \<and> regex_loop E defs c = Inr c' \<and> c' \<noteq> c
         \<and> write_text E f c' s = Inl e) \<Longrightarrow>
     substitute_domains_in_file E f defs s
       = (False, log DEBUG (''Could not process file '' @ path_str f @ '': '' @ e) s)"
  by (auto simp: substitute_domains_in_file_def could_not_process_def)

lemma substitution_goes_on:
  "strip fp \<noteq> [] \<Longrightarrow> \<not> startswith fp ''#'' \<Longrightarrow>
   exists_fs (fs s) (joinpath (chromium_dir self) (strip fp)) \<Longrightarrow>
   \<not> fst (substitute_domains_in_file E (joinpath (chromium_dir self) (strip fp)) defs s) \<Longrightarrow>
     substitution_loop E self defs (fp # rest) n s
       = substitution_loop E self defs rest n
           (snd (substitute_domains_in_file E (joinpath (chromium_dir self) (strip fp)) defs s))"
  by (simp add: Let_def case_prod_beta)

lemma build_flags_exception:
  assumes "exists_fs (fs s) (joinpath (ungoogled_dir self) ''flags.gn'')"
    and "read_text E (joinpath (ungoogled_dir self) ''flags.gn'') s = Inl e
      \<or> (\<exists>fl. read_text E (joinpath (ungoogled_dir self) ''flags.gn'') s = Inr fl
            \<and> mkdir_parents E (parent (args_gn self))
                  (log INFO ''Applying ungoogled-chromium build flags...'' s) = Inl e)
      \<or> (\<exists>fl s2. read_text E (joinpath (ungoogled_dir self) ''flags.gn'') s = Inr fl
            \<and> mkdir_parents E (parent (args_gn self))
                  (log INFO ''Applying ungoogled-chromium build flags...'' s) = Inr s2
            \<and> (if exists_fs (fs s2) (args_gn self)
                then append_text E (args_gn self)
                       ([NL, NL] @ ''# Ungoogled-Chromium specific flags'' @ [NL] @ fl) s2
                else write_text E (args_gn self)
                       (''# Ungoogled-Chromium build flags'' @ [NL] @ fl) s2) = Inl e)"
  shows "\<not> fst (apply_build_flags E self s)
     \<and> last (trace (snd (apply_build_flags E self s)))
         = Log ERROR (''Failed to apply build flags: '' @ e)"
  using assms
  by (auto simp: apply_build_flags_def build_flags_failed_def Let_def)

lemma build_args_exception:
  assumes "mkdir_parents E (parent (args_gn self))
             (log INFO ''Configuring Clang optimization build arguments...'' s) = Inl e
      \<or> (\<exists>s2. mkdir_parents E (parent (args_gn self))
                  (log INFO ''Configuring Clang optimization build arguments...'' s) = Inr s2
            \<and> exists_fs (fs s2) (args_gn self) \<and> read_text E (args_gn self) s2 = Inl e)
      \<or> (\<exists>s2 existing. mkdir_parents E (parent (args_gn self))
                  (log INFO ''Configuring Clang optimization build arguments...'' s) = Inr s2
            \<and> (if exists_fs (fs s2) (args_gn self) then read_text E (args_gn self) s2
                else Inr []) = Inr existing
            \<and> write_text E (args_gn self)
                 (existing @ [NL, NL] @ ''# Chromium Clang Optimizations'' @ [NL]
                  @ generate_optimization_flags self) s2 = Inl e)"
  shows "\<not> fst (configure_build_args E self s)
     \<and> last (trace (snd (configure_build_args E self s)))
         = Log ERROR (''Failed to configure build args: '' @ e)"
  using assms
  by (auto simp: configure_build_args_def build_args_failed_def Let_def)

lemma pruning_exception:
  assumes "exists_fs (fs s) (joinpath (ungoogled_dir self) ''pruning.list'')"
    and "read_text E (joinpath (ungoogled_dir self) ''pruning.list'') s = Inl e
      \<or> (\<exists>listing s'. read_text E (joinpath (ungoogled_dir self) ''pruning.list'') s = Inr listing
            \<and> pruning_loop E self (list_lines listing) 0
                 (log INFO ''Applying pruning list...'' s) = (Inl e, s'))"
  shows "\<not> fst (apply_pruning E self s)
     \<and> last (trace (snd (apply_pruning E self s))) = Log ERROR (''Pruning failed: '' @ e)"
  using assms
  by (auto simp: apply_pruning_def Let_def)

lemma series_aborts_on_exception:
  assumes "exists_fs (fs s) (joinpath dir pf)"
    and "fst (ungoogled_primary E self (joinpath dir pf) s) = Raised e"
  shows "patch_loop E self dir (pf # rest) c s
     = (None, log ERROR (''Failed to apply patch: '' @ pf)
                (snd (apply_single_patch E self (joinpath dir pf) s)))"
  using ungoogled_primary_raises [OF assms(2)] patch_loop_failed [OF assms(1)]
  by blast


text \<open>
  C8 (as amended). An exception of the primary or of the fallback command of a patch
  step is caught in the step, which fails with the text of the exception in an error
  message. An exception while a file is read, rewritten or written back in the
  substitution is caught for that file, logged with its text, and the loop goes on
  with the next file. An exception while the build flags or the build arguments are
  written makes that phase fail with the text in an error message. In pruning an
  exception of a removal ends the loop at that path, and the phase fails with the text
  in an error message. In a patch series of the patcher a step that failed with an
  exception ends the series like any other failure; in a patch group of the optimizer
  every patch is attempted whatever happened before.
\<close>

theorem exceptions_become_failures:
  "(fst (ungoogled_primary E self p s) = Raised e \<longrightarrow>
      \<not> fst (apply_single_patch E self p s)
      \<and> logged ERROR (events_of (apply_single_patch E self p) s)
          = [''Exception applying patch '' @ name p @ '': '' @ e])
   \<and> (exit_nonzero (fst (ungoogled_primary E self p s))
      \<and> fst (ungoogled_fallback E self p s) = Raised e \<longrightarrow>
        \<not> fst (apply_single_patch E self p s)
        \<and> last (logged ERROR (events_of (apply_single_patch E self p) s))
            = ''Fallback patch exception: '' @ e)
   \<and> (fst (clang_primary E optimizer p s) = Raised e \<longrightarrow>
      \<not> fst (apply_patch E optimizer p s)
      \<and> logged ERROR (events_of (apply_patch E optimizer p) s)
          = [''Exception applying patch '' @ name p @ '': '' @ e])
   \<and> (exit_nonzero (fst (clang_primary E optimizer p s))
      \<and> fst (clang_fallback E optimizer p s) = Raised e \<longrightarrow>
        \<not> fst (apply_patch E optimizer p s)
        \<and> logged ERROR (events_of (apply_patch E optimizer p) s)
            = [''Fallback patch exception: '' @ e])
   \<and> (read_text E f s = Inl e
      \<or> (\<exists>c. read_text E f s = Inr c \<and> regex_loop E defs c = Inl e)
      \<or> (\<exists>c c'. read_text E f s = Inr c \<and> regex_loop E defs c = Inr c' \<and> c' \<noteq> c
            \<and> write_text E f c' s = Inl e) \<longrightarrow>
        substitute_domains_in_file E f defs s
          = (False, log DEBUG (''Could not process file '' @ path_str f @ '': '' @ e) s))
   \<and> (strip fp \<noteq> [] \<and> \<not> startswith fp ''#''
      \<and> exists_fs (fs s) (joinpath (chromium_dir self) (strip fp))
      \<and> \<not> fst (substitute_domains_in_file E (joinpath (chromium_dir self) (strip fp)) defs s)
      \<longrightarrow> substitution_loop E self defs (fp # later) n s
            = substitution_loop E self defs later n
                (snd (substitute_domains_in_file E (joinpath (chromium_dir self) (strip fp))
                        defs s)))
   \<and> (exists_fs (fs s) (joinpath (ungoogled_dir self) ''flags.gn'')
      \<and> (read_text E (joinpath (ungoogled_dir self) ''flags.gn'') s = Inl e
         \<or> (\<exists>fl. read_text E (joinpath (ungoogled_dir self) ''flags.gn'') s = Inr fl
               \<and> mkdir_parents E (parent (args_gn self))
                     (log INFO ''Applying ungoogled-chromium build flags...'' s) = Inl e)
         \<or> (\<exists>fl s2. read_text E (joinpath (ungoogled_dir self) ''flags.gn'') s = Inr fl
               \<and> mkdir_parents E (parent (args_gn self))
                     (log INFO ''Applying ungoogled-chromium build flags...'' s) = Inr s2
               \<and> (if exists_fs (fs s2) (args_gn self)
                   then append_text E (args_gn self)
                          ([NL, NL] @ ''# Ungoogled-Chromium specific flags'' @ [NL] @ fl) s2
                   else write_text E (args_gn self)
                          (''# Ungoogled-Chromium build flags'' @ [NL] @ fl) s2) = Inl e))
      \<longrightarrow> \<not> fst (apply_build_flags E self s)
          \<and> last (trace (snd (apply_build_flags E self s)))
              = Log ERROR (''Failed to apply build flags: '' @ e))
   \<and> (mkdir_parents E (parent (args_gn optimizer))
          (log INFO ''Configuring Clang optimization build arguments...'' s) = Inl e
      \<or> (\<exists>s2. mkdir_parents E (parent (args_gn optimizer))
                  (log INFO ''Configuring Clang optimization build arguments...'' s) = Inr s2
            \<and> exists_fs (fs s2) (args_gn optimizer)
            \<and> read_text E (args_gn optimizer) s2 = Inl e)
      \<or> (\<exists>s2 existing. mkdir_parents E (parent (args_gn optimizer))
                  (log INFO ''Configuring Clang optimization build arguments...'' s) = Inr s2
            \<and> (if exists_fs (fs s2) (args_gn optimizer)
                then read_text E (args_gn optimizer) s2 else Inr []) = Inr existing
            \<and> write_text E (args_gn optimizer)
                 (existing @ [NL, NL] @ ''# Chromium Clang Optimizations'' @ [NL]
                  @ generate_optimization_flags optimizer) s2 = Inl e)
      \<longrightarrow> \<not> fst (configure_build_args E optimizer s)
          \<and> last (trace (snd (configure_build_args E optimizer s)))
              = Log ERROR (''Failed to configure build args: '' @ e))
   \<and> (exists_fs (fs s) (joinpath (chromium_dir self) pp)
      \<and> fault E OpRemove (joinpath (chromium_dir self) pp) = Some e \<longrightarrow>
        pruning_loop E self (pp # others) c s = (Inl e, s))
   \<and> (exists_fs (fs s) (joinpath (ungoogled_dir self) ''pruning.list'')
      \<and> (read_text E (joinpath (ungoogled_dir self) ''pruning.list'') s = Inl e
         \<or> (\<exists>listing s'.
               read_text E (joinpath (ungoogled_dir self) ''pruning.list'') s = Inr listing
               \<and> pruning_loop E self (list_lines listing) 0
                    (log INFO ''Applying pruning list...'' s) = (Inl e, s')))
      \<longrightarrow> \<not> fst (apply_pruning E self s)
          \<and> last (trace (snd (apply_pruning E self s))) = Log ERROR (''Pruning failed: '' @ e))
   \<and> (exists_fs (fs s) (joinpath dir pf)
      \<and> fst (ungoogled_primary E self (joinpath dir pf) s) = Raised e \<longrightarrow>
        patch_loop E self dir (pf # rest) c s
          = (None, log ERROR (''Failed to apply patch: '' @ pf)
                     (snd (apply_single_patch E self (joinpath dir pf) s))))
   \<and> git_applies (events_of (group_loop E optimizer failed ps c) s)
       = map clang_git_apply_cmd ps"
  (is "?c1 \<and> ?c2 \<and> ?c3 \<and> ?c4 \<and> ?c5 \<and> ?c6 \<and> ?c7 \<and> ?c8 \<and> ?c9 \<and> ?c10 \<and> ?c11 \<and> ?c12")
proof -
  have c1: ?c1 using ungoogled_primary_raises [of E self p s e] by blast
  have c2: ?c2 using ungoogled_fallback_raises [of E self p s e] by blast
  have c3: ?c3 using clang_primary_raises [of E optimizer p s e] by blast
  have c4: ?c4 using clang_fallback_raises [of E optimizer p s e] by blast
  have c5: ?c5 using substitution_exception [of E f s e defs] by (rule impI)
  have c6: ?c6 using substitution_goes_on [of fp s self E defs later n] by blast
  have c7: ?c7 using build_flags_exception [of s self E e] by (intro impI) (elim conjE)
  have c8: ?c8 using build_args_exception [of E optimizer s e] by (rule impI)
  have c9: ?c9 using prune_error [of s self pp E e others c] by blast
  have c10: ?c10 using pruning_exception [of s self E e] by (intro impI) (elim conjE)
  have c11: ?c11 using series_aborts_on_exception [of s dir pf E self e rest c] by blast
  have c12: ?c12 by (rule group_loop_git_applies)
  show ?thesis
    by (intro conjI) (rule c1 c2 c3 c4 c5 c6 c7 c8 c9 c10 c11 c12)+
qed


theorem exceptions_become_failures_witness:
  "fst (ungoogled_primary (world (tool missing ok)) example_patcher a_patch (start []))
     = Raised ''[Errno 2] No such file or directory''
   \<and> \<not> fst (apply_single_patch (world (tool missing ok)) example_patcher a_patch (start []))
   \<and> fst (ungoogled_fallback (world (tool rejected missing)) example_patcher a_patch (start []))
       = Raised ''[Errno 2] No such file or directory''
   \<and> \<not> fst (apply_single_patch (world (tool rejected missing)) example_patcher a_patch
              (start []))
   \<and> \<not> fst (apply_patch (world (tool missing ok)) example_optimizer a_patch (start []))
   \<and> \<not> fst (apply_patch (world (tool rejected missing)) example_optimizer a_patch (start []))
   \<and> read_text (failing OpRead [''src'', ''page.html'']) [''src'', ''page.html'']
         (start substitution_tree) = Inl ''[Errno 13] Permission denied''
   \<and> substitute_domains_in_file (failing OpRead [''src'', ''page.html''])
         [''src'', ''page.html''] [] (start substitution_tree)
       = (False,
          log DEBUG (''Could not process file '' @ path_str [''src'', ''page.html''] @ '': ''
                     @ ''[Errno 13] Permission denied'') (start substitution_tree))
   \<and> substitution_loop (failing OpRead [''src'', ''page.html'']) example_patcher []
         [''page.html'', ''other.html''] 0 (start substitution_tree)
       = substitution_loop (failing OpRead [''src'', ''page.html'']) example_patcher []
           [''other.html''] 0
           (snd (substitute_domains_in_file (failing OpRead [''src'', ''page.html''])
                   (joinpath (chromium_dir example_patcher) (strip ''page.html'')) []
                   (start substitution_tree)))
   \<and> \<not> fst (apply_build_flags (failing OpRead [''ungoogled'', ''flags.gn'']) example_patcher
              (start (pipeline_tree Dir)))
   \<and> \<not> fst (configure_build_args (world (tool ok ok)) example_optimizer (start blocked_tree))
   \<and> pruning_loop (denied [''src'', ''junk'']) example_patcher [''junk'', ''page.html''] 0
         (start (pipeline_tree Dir))
       = (Inl ''[Errno 13] Permission denied'', start (pipeline_tree Dir))
   \<and> \<not> fst (apply_pruning (denied [''src'', ''junk'']) example_patcher
              (start (pipeline_tree Dir)))
   \<and> fst (patch_loop (world (tool missing ok)) example_patcher core_dir
             [''a.patch'', ''b.patch''] 0
             (start (series_tree [''a.patch'', ''b.patch''] [''a.patch'', ''b.patch''])))
       = None"
proof -
  let ?M = "world (tool missing ok)"
  let ?R = "world (tool rejected missing)"
  let ?P = example_patcher
  let ?O = example_optimizer
  let ?e2 = "''[Errno 2] No such file or directory''"
  let ?e13 = "''[Errno 13] Permission denied''"
  have h1: "fst (ungoogled_primary ?M ?P a_patch (start [])) = Raised ?e2"
    by code_simp
  from conjunct1 [OF exceptions_become_failures
      [where E = ?M and self = ?P and p = a_patch and s = "start []" and e = ?e2]] h1
  have r1: "\<not> fst (apply_single_patch ?M ?P a_patch (start []))"
    by blast
  have h2a: "exit_nonzero (fst (ungoogled_primary ?R ?P a_patch (start [])))"
    by code_simp
  have h2: "fst (ungoogled_fallback ?R ?P a_patch (start [])) = Raised ?e2"
    by code_simp
  from conjunct1 [OF conjunct2 [OF exceptions_become_failures
      [where E = ?R and self = ?P and p = a_patch and s = "start []" and e = ?e2]]] h2a h2
  have r2: "\<not> fst (apply_single_patch ?R ?P a_patch (start []))"
    by blast
  have h3: "fst (clang_primary ?M ?O a_patch (start [])) = Raised ?e2"
    by code_simp
  from conjunct1 [OF conjunct2 [OF conjunct2 [OF exceptions_become_failures
      [where E = ?M and optimizer = ?O and p = a_patch and s = "start []" and e = ?e2]]]] h3
  have r3: "\<not> fst (apply_patch ?M ?O a_patch (start []))"
    by blast
  have h4a: "exit_nonzero (fst (clang_primary ?R ?O a_patch (start [])))"
    by code_simp
  have h4: "fst (clang_fallback ?R ?O a_patch (start [])) = Raised ?e2"
    by code_simp
  from conjunct1 [OF conjunct2 [OF conjunct2 [OF conjunct2 [OF exceptions_become_failures
      [where E = ?R and optimizer = ?O and p = a_patch and s = "start []" and e = ?e2]]]]]
    h4a h4
  have r4: "\<not> fst (apply_patch ?R ?O a_patch (start []))"
    by blast
  let ?F = "failing OpRead [''src'', ''page.html'']"
  let ?s = "start substitution_tree"
  note sub = exceptions_become_failures [where E = ?F and self = ?P and s = ?s and e = ?e13
      and f = "[''src'', ''page.html'']" and defs = "[]" and fp = "''page.html''"
      and later = "[''other.html'']" and n = 0]
  have h5: "read_text ?F [''src'', ''page.html''] ?s = Inl ?e13"
    by code_simp
  from conjunct1 [OF conjunct2 [OF conjunct2 [OF conjunct2 [OF conjunct2 [OF sub]]]]] h5
  have r5: "substitute_domains_in_file ?F [''src'', ''page.html''] [] ?s
      = (False, log DEBUG (''Could not process file '' @ path_str [''src'', ''page.html'']
                           @ '': '' @ ?e13) ?s)"
    by blast
  have h6: "strip ''page.html'' \<noteq> [] \<and> \<not> startswith ''page.html'' ''#''
      \<and> exists_fs (fs ?s) (joinpath (chromium_dir ?P) (strip ''page.html''))
      \<and> \<not> fst (substitute_domains_in_file ?F (joinpath (chromium_dir ?P) (strip ''page.html''))
                 [] ?s)"
    by code_simp
  from conjunct1 [OF conjunct2 [OF conjunct2 [OF conjunct2 [OF conjunct2 [OF conjunct2
      [OF sub]]]]]] h6
  have r6: "substitution_loop ?F ?P [] [''page.html'', ''other.html''] 0 ?s
      = substitution_loop ?F ?P [] [''other.html''] 0
          (snd (substitute_domains_in_file ?F (joinpath (chromium_dir ?P) (strip ''page.html''))
                  [] ?s))"
    by blast
  let ?G = "failing OpRead [''ungoogled'', ''flags.gn'']"
  let ?t = "start (pipeline_tree Dir)"
  have h7: "exists_fs (fs ?t) (joinpath (ungoogled_dir ?P) ''flags.gn'')"
    by code_simp
  have h7b: "read_text ?G (joinpath (ungoogled_dir ?P) ''flags.gn'') ?t = Inl ?e13"
    by code_simp
  from conjunct1 [OF conjunct2 [OF conjunct2 [OF conjunct2 [OF conjunct2 [OF conjunct2
      [OF conjunct2 [OF exceptions_become_failures
        [where E = ?G and self = ?P and s = ?t and e = ?e13]]]]]]]] h7 h7b
  have r7: "\<not> fst (apply_build_flags ?G ?P ?t)"
    by blast
  let ?W = "world (tool ok ok)"
  have h8: "mkdir_parents ?W (parent (args_gn ?O))
      (log INFO ''Configuring Clang optimization build arguments...'' (start blocked_tree))
      = Inl ''FileExistsError''"
    by code_simp
  from conjunct1 [OF conjunct2 [OF conjunct2 [OF conjunct2 [OF conjunct2 [OF conjunct2
      [OF conjunct2 [OF conjunct2 [OF exceptions_become_failures
        [where E = ?W and optimizer = ?O and s = "start blocked_tree"
           and e = "''FileExistsError''"]]]]]]]]] h8
  have r8: "\<not> fst (configure_build_args ?W ?O (start blocked_tree))"
    by blast
  let ?D = "denied [''src'', ''junk'']"
  note pr = exceptions_become_failures [where E = ?D and self = ?P and s = ?t and e = ?e13
      and pp = "''junk''" and others = "[''page.html'']" and c = 0]
  have h9: "exists_fs (fs ?t) (joinpath (chromium_dir ?P) ''junk'')
      \<and> fault ?D OpRemove (joinpath (chromium_dir ?P) ''junk'') = Some ?e13"
    by code_simp
  from conjunct1 [OF conjunct2 [OF conjunct2 [OF conjunct2 [OF conjunct2 [OF conjunct2
      [OF conjunct2 [OF conjunct2 [OF conjunct2 [OF pr]]]]]]]]] h9
  have r9: "pruning_loop ?D ?P [''junk'', ''page.html''] 0 ?t = (Inl ?e13, ?t)"
    by blast
  have h10: "exists_fs (fs ?t) (joinpath (ungoogled_dir ?P) ''pruning.list'')"
    by code_simp
  have h10b: "read_text ?D (joinpath (ungoogled_dir ?P) ''pruning.list'') ?t = Inr ''junk''"
    by code_simp
  have "fst (pruning_loop ?D ?P (list_lines ''junk'') 0
      (log INFO ''Applying pruning list...'' ?t)) = Inl ?e13"
    by code_simp
  then have h10c: "pruning_loop ?D ?P (list_lines ''junk'') 0
      (log INFO ''Applying pruning list...'' ?t)
      = (Inl ?e13, snd (pruning_loop ?D ?P (list_lines ''junk'') 0
           (log INFO ''Applying pruning list...'' ?t)))"
    by (simp only: prod_eq_iff fst_conv snd_conv)
  from conjunct1 [OF conjunct2 [OF conjunct2 [OF conjunct2 [OF conjunct2 [OF conjunct2
      [OF conjunct2 [OF conjunct2 [OF conjunct2 [OF conjunct2 [OF pr]]]]]]]]]] h10 h10b h10c
  have r10: "\<not> fst (apply_pruning ?D ?P ?t)"
    by blast
  let ?u = "start (series_tree [''a.patch'', ''b.patch''] [''a.patch'', ''b.patch''])"
  have h11: "exists_fs (fs ?u) (joinpath core_dir ''a.patch'')
      \<and> fst (ungoogled_primary ?M ?P (joinpath core_dir ''a.patch'') ?u) = Raised ?e2"
    by code_simp
  from conjunct1 [OF conjunct2 [OF conjunct2 [OF conjunct2 [OF conjunct2 [OF conjunct2
      [OF conjunct2 [OF conjunct2 [OF conjunct2 [OF conjunct2 [OF conjunct2
        [OF exceptions_become_failures
          [where E = ?M and self = ?P and s = ?u and e = ?e2 and dir = core_dir
             and pf = "''a.patch''" and rest = "[''b.patch'']" and c = 0]]]]]]]]]]]] h11
  have "patch_loop ?M ?P core_dir [''a.patch'', ''b.patch''] 0 ?u
      = (None, log ERROR (''Failed to apply patch: '' @ ''a.patch'')
                 (snd (apply_single_patch ?M ?P (joinpath core_dir ''a.patch'') ?u)))"
    by blast
  then have r11: "fst (patch_loop ?M ?P core_dir [''a.patch'', ''b.patch''] 0 ?u) = None"
    by (simp only: fst_conv)
  from h1 r1 h2 r2 r3 r4 h5 r5 r6 r7 r8 r9 r10 r11 show ?thesis
    by (intro conjI)
qed

text \<open>
  In a patch series of the patcher the exception of one step ends the series: the second
  patch is never attempted. In pruning the exception of one removal ends the loop: the
  second path is still there.
\<close>

theorem exceptions_become_failures_counterexample:
  "fst (apply_patch_series (world (tool missing ok)) example_patcher core_dir ''core''
          (start (series_tree [''a.patch'', ''b.patch''] [''a.patch'', ''b.patch''])))
     = Inr False
   \<and> git_applies (events_of
         (apply_patch_series (world (tool missing ok)) example_patcher core_dir ''core'')
         (start (series_tree [''a.patch'', ''b.patch''] [''a.patch'', ''b.patch''])))
       = [ungoogled_git_apply_cmd (core_dir @ [''a.patch''])]
   \<and> logged ERROR (events_of
         (apply_patch_series (world (tool missing ok)) example_patcher core_dir ''core'')
         (start (series_tree [''a.patch'', ''b.patch''] [''a.patch'', ''b.patch''])))
       = [''Exception applying patch a.patch: [Errno 2] No such file or directory'',
          ''Failed to apply patch: a.patch'']
   \<and> pruning_loop (denied [''src'', ''junk'']) example_patcher [''junk'', ''page.html''] 0
         (start (pipeline_tree Dir))
       = (Inl ''[Errno 13] Permission denied'', start (pipeline_tree Dir))
   \<and> exists_fs (fs (start (pipeline_tree Dir))) [''src'', ''page.html'']
   \<and> fst (apply_pruning (denied [''src'', ''junk'']) example_patcher (start (pipeline_tree Dir)))
       = False"
  by code_simp

section \<open>Every phase starts once\<close>

lemma phase_starts_simps [simp]:
  "phase_starts [] = []"
  "phase_starts (Exec c # evs) = phase_starts evs"
  "phase_starts (Write q x # evs) = phase_starts evs"
  "phase_starts (Log DEBUG m # evs) = phase_starts evs"
  "phase_starts (Log WARNING m # evs) = phase_starts evs"
  "phase_starts (Log ERROR m # evs) = phase_starts evs"
  "phase_starts (xs @ ys) = phase_starts xs @ phase_starts ys"
  by (simp_all add: phase_starts_def)

lemma phase_starts_info:
  "phase_starts (Log INFO m # evs)
     = (if m \<in> set (ungoogled_phases @ clang_phases) then m # phase_starts evs
        else phase_starts evs)"
  by (simp add: phase_starts_def)

lemma not_a_phase:
  "phase_starts (Log INFO (''Found '' @ x) # evs) = phase_starts evs"
  "phase_starts (Log INFO (''Successfully applied '' @ x) # evs) = phase_starts evs"
  "phase_starts (Log INFO (''Domain substitution applied to '' @ x) # evs) = phase_starts evs"
  "phase_starts (Log INFO (''Pruned '' @ x) # evs) = phase_starts evs"
  "phase_starts (Log INFO ''Build flags applied'' # evs) = phase_starts evs"
  "phase_starts (Log INFO (''Verified '' @ x) # evs) = phase_starts evs"
  "phase_starts (Log INFO (''Completed steps: '' @ x) # evs) = phase_starts evs"
  "phase_starts (Log INFO ''Starting complete ungoogled-chromium patch application...'' # evs)
     = phase_starts evs"
  "phase_starts (Log INFO ''Ungoogled-chromium patches applied successfully!'' # evs)
     = phase_starts evs"
  "phase_starts (Log INFO (''Applied '' @ x) # evs) = phase_starts evs"
  "phase_starts (Log INFO ''Build arguments configured with Clang optimizations'' # evs)
     = phase_starts evs"
  "phase_starts (Log INFO ''Custom Clang toolchain setup complete'' # evs) = phase_starts evs"
  "phase_starts (Log INFO ''Starting complete Clang optimization application...'' # evs)
     = phase_starts evs"
  "phase_starts (Log INFO ''Chromium Clang optimizations applied successfully!'' # evs)
     = phase_starts evs"
  by (simp_all add: phase_starts_info ungoogled_phases_def clang_phases_def)

lemmas not_a_phase_simps [simp] = not_a_phase [simplified]

lemma a_phase [simp]:
  "phase_starts (Log INFO ''Applying core privacy patches...'' # evs)
     = ''Applying core privacy patches...'' # phase_starts evs"
  "phase_starts (Log INFO ''Applying extra privacy patches...'' # evs)
     = ''Applying extra privacy patches...'' # phase_starts evs"
  "phase_starts (Log INFO ''Applying Inox security patches...'' # evs)
     = ''Applying Inox security patches...'' # phase_starts evs"
  "phase_starts (Log INFO ''Applying domain substitution...'' # evs)
     = ''Applying domain substitution...'' # phase_starts evs"
  "phase_starts (Log INFO ''Applying pruning list...'' # evs)
     = ''Applying pruning list...'' # phase_starts evs"
  "phase_starts (Log INFO ''Applying ungoogled-chromium build flags...'' # evs)
     = ''Applying ungoogled-chromium build flags...'' # phase_starts evs"
  "phase_starts (Log INFO ''Verifying patch application...'' # evs)
     = ''Verifying patch application...'' # phase_starts evs"
  "phase_starts (Log INFO ''Applying V8 engine optimizations...'' # evs)
     = ''Applying V8 engine optimizations...'' # phase_starts evs"
  "phase_starts (Log INFO ''Applying Windows optimization patches...'' # evs)
     = ''Applying Windows optimization patches...'' # phase_starts evs"
  "phase_starts (Log INFO ''Applying cross-platform optimization patches...'' # evs)
     = ''Applying cross-platform optimization patches...'' # phase_starts evs"
  "phase_starts (Log INFO ''Configuring Clang optimization build arguments...'' # evs)
     = ''Configuring Clang optimization build arguments...'' # phase_starts evs"
  "phase_starts (Log INFO ''Setting up custom optimized Clang toolchain...'' # evs)
     = ''Setting up custom optimized Clang toolchain...'' # phase_starts evs"
  "phase_starts (Log INFO ''Verifying optimization patches...'' # evs)
     = ''Verifying optimization patches...'' # phase_starts evs"
  by (simp_all add: phase_starts_info ungoogled_phases_def clang_phases_def)


lemma file_operations_trace:
  "write_text E p c s = Inr s' \<Longrightarrow> phase_starts (trace s') = phase_starts (trace s)"
  "append_text E p c s = Inr s' \<Longrightarrow> phase_starts (trace s') = phase_starts (trace s)"
  "rmtree E p s = Inr s' \<Longrightarrow> trace s' = trace s"
  "unlink E p s = Inr s' \<Longrightarrow> trace s' = trace s"
  by (auto simp: write_text_def append_text_def rmtree_def unlink_def
      split: option.splits node.splits if_splits)

lemma mkdir_each_trace: "mkdir_each E ds s = Inr s' \<Longrightarrow> trace s' = trace s"
  by (induction ds arbitrary: s) (auto split: option.splits node.splits)

lemma mkdir_parents_trace: "mkdir_parents E p s = Inr s' \<Longrightarrow> trace s' = trace s"
  by (simp add: mkdir_parents_def mkdir_each_trace)

lemma single_patch_phases:
  "phase_starts (trace (snd (apply_single_patch E self p s))) = phase_starts (trace s)"
  by (simp add: apply_single_patch_def ungoogled_apply_patch_fallback_def run_def Let_def
        case_prod_beta split: proc.splits)

lemma patch_loop_phases:
  "phase_starts (trace (snd (patch_loop E self dir pfs c s))) = phase_starts (trace s)"
proof (induction pfs arbitrary: c s)
  case Nil
  show ?case by simp
next
  case (Cons pf rest)
  show ?case
  proof (cases "exists_fs (fs s) (joinpath dir pf)")
    case False
    show ?thesis
      by (simp only: patch_loop_skip [OF False] Cons) simp
  next
    case True
    show ?thesis
    proof (cases "fst (apply_single_patch E self (joinpath dir pf) s)")
      case ok: True
      show ?thesis
        by (simp only: patch_loop_applied [OF True ok] Cons single_patch_phases)
    next
      case no: False
      show ?thesis
        by (simp only: patch_loop_failed [OF True no] snd_conv) (simp add: single_patch_phases)
    qed
  qed
qed

lemma patch_series_phases:
  "phase_starts (trace (snd (apply_patch_series E self dir nm s))) = phase_starts (trace s)"
proof (cases "series_patch_files E dir s")
  case (Inl e)
  then show ?thesis by (simp add: apply_patch_series_def)
next
  case (Inr pfs)
  show ?thesis
    by (simp add: apply_patch_series_run [OF Inr] case_prod_beta patch_loop_phases
          split: option.splits)
qed

lemma patch_phases:
  "phase_starts (trace (snd (apply_core_patches E self s)))
     = phase_starts (trace s) @ [''Applying core privacy patches...'']"
  "phase_starts (trace (snd (apply_extra_patches E self s)))
     = phase_starts (trace s) @ [''Applying extra privacy patches...'']"
  "phase_starts (trace (snd (apply_inox_patches E self s)))
     = phase_starts (trace s) @ [''Applying Inox security patches...'']"
  by (simp_all add: apply_core_patches_def apply_extra_patches_def apply_inox_patches_def
        Let_def patch_series_phases)

lemma substitute_file_phases:
  "phase_starts (trace (snd (substitute_domains_in_file E f defs s))) = phase_starts (trace s)"
  by (auto simp: substitute_domains_in_file_def could_not_process_def
      split: sum.splits dest: file_operations_trace(1))

lemma substitution_loop_phases:
  "phase_starts (trace (snd (substitution_loop E self defs fps n s))) = phase_starts (trace s)"
  by (induction fps arbitrary: n s)
     (simp_all add: Let_def case_prod_beta substitute_file_phases split: bool.splits)

lemma substitution_phases:
  "phase_starts (trace (snd (apply_domain_substitution E self s)))
     = phase_starts (trace s) @ [''Applying domain substitution...'']"
  by (simp add: apply_domain_substitution_def substitution_failed_def Let_def case_prod_beta
        substitution_loop_phases split: option.splits sum.splits)

lemma pruning_loop_phases:
  "phase_starts (trace (snd (pruning_loop E self pps c s))) = phase_starts (trace s)"
proof (induction pps arbitrary: c s)
  case Nil
  show ?case by simp
next
  case (Cons pp rest)
  show ?case
    by (auto simp: Let_def Cons split: sum.splits dest: file_operations_trace(3,4))
qed

lemma pruning_phases:
  "phase_starts (trace (snd (apply_pruning E self s)))
     = phase_starts (trace s) @ [''Applying pruning list...'']"
proof -
  have "\<And>listing. phase_starts (trace (snd (pruning_loop E self (list_lines listing) 0
      (log INFO ''Applying pruning list...'' s))))
      = phase_starts (trace s) @ [''Applying pruning list...'']"
    by (simp add: pruning_loop_phases)
  then show ?thesis
    by (simp add: apply_pruning_def Let_def case_prod_beta split: sum.splits)
qed

lemma build_flags_phases:
  "phase_starts (trace (snd (apply_build_flags E self s)))
     = phase_starts (trace s) @ [''Applying ungoogled-chromium build flags...'']"
  by (auto simp: apply_build_flags_def build_flags_failed_def Let_def
      split: sum.splits if_splits
      dest!: mkdir_parents_trace file_operations_trace(1) file_operations_trace(2))

lemma verify_loop_phases:
  "phase_starts (trace (snd (verify_loop E self ms n s))) = phase_starts (trace s)"
  by (induction ms arbitrary: n s)
     (auto simp: Let_def split: sum.splits option.splits)

lemma verify_patches_phases:
  "phase_starts (trace (snd (verify_patches E self s)))
     = phase_starts (trace s) @ [''Verifying patch application...'']"
  by (simp add: verify_patches_def Let_def case_prod_beta verify_loop_phases)


lemma apply_patch_phases:
  "phase_starts (trace (snd (apply_patch E self p s))) = phase_starts (trace s)"
  by (simp add: apply_patch_def clang_apply_patch_fallback_def run_def Let_def
        case_prod_beta split: proc.splits)

lemma group_loop_phases:
  "phase_starts (trace (snd (group_loop E self failed ps c s))) = phase_starts (trace s)"
  by (induction ps arbitrary: c s)
     (simp_all add: case_prod_beta apply_patch_phases split: bool.splits)

lemma group_phases:
  "phase_starts (trace (snd (apply_v8_optimizations E self s)))
     = phase_starts (trace s) @ [''Applying V8 engine optimizations...'']"
  "phase_starts (trace (snd (apply_windows_optimizations E self s)))
     = phase_starts (trace s) @ [''Applying Windows optimization patches...'']"
  "phase_starts (trace (snd (apply_linux_optimizations E self s)))
     = phase_starts (trace s) @ [''Applying cross-platform optimization patches...'']"
  by (simp_all add: apply_v8_optimizations_def apply_windows_optimizations_def
        apply_linux_optimizations_def Let_def case_prod_beta group_loop_phases)

lemma build_args_phases:
  "phase_starts (trace (snd (configure_build_args E self s)))
     = phase_starts (trace s) @ [''Configuring Clang optimization build arguments...'']"
  by (auto simp: configure_build_args_def build_args_failed_def Let_def
      split: sum.splits if_splits
      dest!: mkdir_parents_trace file_operations_trace(1))

lemma toolchain_phases:
  "phase_starts (trace (snd (setup_custom_toolchain E self s)))
     = phase_starts (trace s) @ [''Setting up custom optimized Clang toolchain...'']"
  by (simp add: setup_custom_toolchain_def run_def Let_def case_prod_beta split: proc.splits)

lemma points_loop_phases:
  "phase_starts (trace (snd (points_loop E self ms n s))) = phase_starts (trace s)"
  by (induction ms arbitrary: n s)
     (auto simp: Let_def split: sum.splits)

lemma verify_optimizations_phases:
  "phase_starts (trace (snd (verify_optimizations E self s)))
     = phase_starts (trace s) @ [''Verifying optimization patches...'']"
  by (simp add: verify_optimizations_def Let_def case_prod_beta points_loop_phases)

text \<open>
  Every run of the optimizer starts its six phases once each, in order. A run of the
  patcher that returns a verdict has started its seven phases once each, in order; a
  run that ends with an exception has not.
\<close>

lemma clang_phases_once:
  "phase_starts (trace (snd (clang_run_all E self s))) = phase_starts (trace s) @ clang_phases"
  by (simp add: clang_run_all_def Let_def case_prod_beta group_phases build_args_phases
        toolchain_phases verify_optimizations_phases clang_phases_def)

lemma ungoogled_phases_once:
  "fst (ungoogled_run_all E self s) = Inr b \<Longrightarrow>
     phase_starts (trace (snd (ungoogled_run_all E self s)))
       = phase_starts (trace s) @ ungoogled_phases"
  by (simp add: ungoogled_run_all_def Let_def case_prod_beta patch_phases substitution_phases
        pruning_phases build_flags_phases verify_patches_phases ungoogled_phases_def
        split: sum.splits if_splits)

text \<open>
  C9, at an input where the code departs from it. With a \<open>series\<close> file that can
  be read, the seven phases of the patcher start once each and in order. When
  \<open>patches/core/series\<close> exists and cannot be read (here it is a directory), the
  exception of \<open>open\<close> leaves \<open>_apply_patch_series\<close>, \<open>apply_core_patches\<close> and
  \<open>run_all\<close>: only the first phase starts, and the process ends with status 1 and no
  verdict.
\<close>

theorem phases_after_unreadable_series:
  "phase_starts (events_of (ungoogled_run_all (world (tool ok ok)) example_patcher)
                   (start (pipeline_tree (File ''a.patch''))))
     = ungoogled_phases
   \<and> fst (ungoogled_run_all (world (tool ok ok)) example_patcher (start (pipeline_tree Dir)))
       = Inl ''IsADirectoryError''
   \<and> phase_starts (events_of (ungoogled_run_all (world (tool ok ok)) example_patcher)
                     (start (pipeline_tree Dir)))
       = [''Applying core privacy patches...'']
   \<and> fst (ungoogled_main (world (tool ok ok)) [''ungoogled''] [''src'']
            (start (pipeline_tree Dir)))
       = 1"
  by code_simp

end
